theory Spec2Isabelle
  imports Complex_Main "HOL-Library.AList"
begin

section \<open>Map helpers: demes and transmissions on a wrapped world map\<close>

text \<open>
  A shallow embedding of \<^verbatim>\<open>src/components/map/mapHelpersLatLong.js\<close>.

  Conventions of the embedding.
  \<^item> The results of arithmetic that the module stores (the dates along a curve, the
    longitude of a deme, the angles of a pie chart) are IEEE 754 doubles: type \<open>dbl\<close>, with
    every operation rounded to the nearest double, ties to even, and with the infinities
    and \<^verbatim>\<open>NaN\<close>.
  \<^item> The longitudes that go through the validity check of a transmission are of type
    \<open>jsnum\<close>: a real number or \<^verbatim>\<open>NaN\<close>, with exact sums and differences; \<^verbatim>\<open>undefined\<close>
    in a numeric position is \<^verbatim>\<open>NaN\<close> as well (that is what \<^verbatim>\<open>undefined + 360\<close> evaluates
    to).
  \<^item> A JavaScript object used as a dictionary is an association list in insertion order.
    Reading a property also finds the members inherited from \<^verbatim>\<open>Object.prototype\<close>, and
    \<^verbatim>\<open>Object.entries\<close> and \<^verbatim>\<open>Object.keys\<close> list the own keys that are array indices first,
    in ascending order, and then the others in insertion order.
  \<^item> A thrown \<^verbatim>\<open>TypeError\<close> is the value \<open>Inl TypeError\<close>.
  \<^item> The projection (\<^verbatim>\<open>map.latLngToLayerPoint\<close>), the curve builder (\<^verbatim>\<open>bezier\<close>), the pie
    layout (\<^verbatim>\<open>pie()\<close>) and the colour blend (\<^verbatim>\<open>averageColorsDict\<close>) are parameters.
\<close>

subsection \<open>JavaScript values\<close>

datatype jsnum = Num real | NaN

fun jadd :: "jsnum \<Rightarrow> real \<Rightarrow> jsnum" where
  "jadd (Num a) b = Num (a + b)"
| "jadd NaN b = NaN"

fun jsub :: "jsnum \<Rightarrow> jsnum \<Rightarrow> jsnum" where
  "jsub (Num a) (Num b) = Num (a - b)"
| "jsub _ _ = NaN"

fun jabs :: "jsnum \<Rightarrow> jsnum" where
  "jabs (Num a) = Num \<bar>a\<bar>"
| "jabs NaN = NaN"

text \<open>Comparisons with \<^verbatim>\<open>NaN\<close> are false.\<close>

fun jlt :: "jsnum \<Rightarrow> real \<Rightarrow> bool" where
  "jlt (Num a) b = (a < b)"
| "jlt NaN b = False"

fun jgt :: "jsnum \<Rightarrow> real \<Rightarrow> bool" where
  "jgt (Num a) b = (a > b)"
| "jgt NaN b = False"

text \<open>The values a node trait can hold, with JavaScript's truthiness and \<^verbatim>\<open>String()\<close>.\<close>

datatype jsval = Undefined | Null | BoolV bool | NumV nat | Str string

fun truthy :: "jsval \<Rightarrow> bool" where
  "truthy Undefined = False"
| "truthy Null = False"
| "truthy (BoolV b) = b"
| "truthy (NumV n) = (n \<noteq> 0)"
| "truthy (Str s) = (s \<noteq> [])"

definition digit_char :: "nat \<Rightarrow> char" where
  "digit_char d = ''0123456789'' ! d"

function toString_nat :: "nat \<Rightarrow> string" where
  "toString_nat n =
     (if n < 10 then [digit_char n] else toString_nat (n div 10) @ [digit_char (n mod 10)])"
  by pat_completeness auto
termination
  by (relation "measure (\<lambda>n. n)") auto

declare toString_nat.simps [simp del]

fun toString :: "jsval \<Rightarrow> string" where
  "toString Undefined = ''undefined''"
| "toString Null = ''null''"
| "toString (BoolV b) = (if b then ''true'' else ''false'')"
| "toString (NumV n) = toString_nat n"
| "toString (Str s) = s"

datatype error = TypeError

subsection \<open>Doubles\<close>

text \<open>
  A double is a finite number, an infinity or \<^verbatim>\<open>NaN\<close>; the two zeros are not told apart
  (they are equal under \<^verbatim>\<open>===\<close>, and no divisor in this module can be the negative one).
\<close>

datatype dbl = Fin real | PInf | NInf | NaNd

definition pow2 :: "int \<Rightarrow> real" where
  "pow2 e = (if 0 \<le> e then 2 ^ nat e else 1 / 2 ^ nat (- e))"

text \<open>The number of binary digits of a positive integer.\<close>

function bitLength :: "int \<Rightarrow> int" where
  "bitLength n = (if n \<le> 0 then 0 else 1 + bitLength (n div 2))"
  by pat_completeness auto
termination
  by (relation "measure nat") auto

declare bitLength.simps [simp del]

text \<open>The binary exponent of a number other than zero: \<open>2 ^ e \<le> |x| < 2 ^ (e + 1)\<close>.\<close>

definition exponent :: "real \<Rightarrow> int" where
  "exponent x =
     (if 1 \<le> \<bar>x\<bar> then bitLength \<lfloor>\<bar>x\<bar>\<rfloor> - 1
      else - bitLength (\<lceil>1 / \<bar>x\<bar>\<rceil> - 1))"

text \<open>
  The distance between neighbouring doubles around \<open>x\<close>: 52 fraction bits, and the least
  exponent -1022 below which the doubles are denormal and equally spaced.
\<close>

definition ulp :: "real \<Rightarrow> real" where
  "ulp x = pow2 (max (exponent x) (- 1022) - 52)"

definition roundHalfEven :: "real \<Rightarrow> int" where
  "roundHalfEven y =
     (let f = \<lfloor>y\<rfloor>; r = y - of_int f
      in if r < 1 / 2 then f else if 1 / 2 < r then f + 1 else if even f then f else f + 1)"

definition nearest :: "real \<Rightarrow> real" where
  "nearest x = (if x = 0 then 0 else of_int (roundHalfEven (x / ulp x)) * ulp x)"

text \<open>Rounding the exact result of an operation, with overflow to an infinity.\<close>

definition toDouble :: "real \<Rightarrow> dbl" where
  "toDouble x =
     (let y = nearest x
      in if pow2 1024 \<le> y then PInf else if y \<le> - pow2 1024 then NInf else Fin y)"

fun dadd :: "dbl \<Rightarrow> dbl \<Rightarrow> dbl" where
  "dadd (Fin a) (Fin b) = toDouble (a + b)"
| "dadd NaNd _ = NaNd"
| "dadd _ NaNd = NaNd"
| "dadd PInf NInf = NaNd"
| "dadd NInf PInf = NaNd"
| "dadd PInf _ = PInf"
| "dadd _ PInf = PInf"
| "dadd NInf _ = NInf"
| "dadd _ NInf = NInf"

fun dneg :: "dbl \<Rightarrow> dbl" where
  "dneg (Fin a) = Fin (- a)"
| "dneg PInf = NInf"
| "dneg NInf = PInf"
| "dneg NaNd = NaNd"

definition dsub :: "dbl \<Rightarrow> dbl \<Rightarrow> dbl" where
  "dsub a b = dadd a (dneg b)"

fun dmul :: "dbl \<Rightarrow> dbl \<Rightarrow> dbl" where
  "dmul (Fin a) (Fin b) = toDouble (a * b)"
| "dmul NaNd _ = NaNd"
| "dmul _ NaNd = NaNd"
| "dmul (Fin a) PInf = (if a = 0 then NaNd else if 0 < a then PInf else NInf)"
| "dmul (Fin a) NInf = (if a = 0 then NaNd else if 0 < a then NInf else PInf)"
| "dmul PInf (Fin b) = (if b = 0 then NaNd else if 0 < b then PInf else NInf)"
| "dmul NInf (Fin b) = (if b = 0 then NaNd else if 0 < b then NInf else PInf)"
| "dmul PInf PInf = PInf"
| "dmul NInf NInf = PInf"
| "dmul PInf NInf = NInf"
| "dmul NInf PInf = NInf"

text \<open>Division; a zero divisor is the positive zero.\<close>

fun ddiv :: "dbl \<Rightarrow> dbl \<Rightarrow> dbl" where
  "ddiv (Fin a) (Fin b) =
     (if b = 0 then (if a = 0 then NaNd else if 0 < a then PInf else NInf)
      else toDouble (a / b))"
| "ddiv NaNd _ = NaNd"
| "ddiv _ NaNd = NaNd"
| "ddiv (Fin a) PInf = Fin 0"
| "ddiv (Fin a) NInf = Fin 0"
| "ddiv PInf (Fin b) = (if 0 \<le> b then PInf else NInf)"
| "ddiv NInf (Fin b) = (if 0 \<le> b then NInf else PInf)"
| "ddiv PInf PInf = NaNd"
| "ddiv PInf NInf = NaNd"
| "ddiv NInf PInf = NaNd"
| "ddiv NInf NInf = NaNd"

text \<open>Comparisons with \<^verbatim>\<open>NaN\<close> are false.\<close>

fun dlt :: "dbl \<Rightarrow> real \<Rightarrow> bool" where
  "dlt (Fin a) b = (a < b)"
| "dlt NInf b = True"
| "dlt PInf b = False"
| "dlt NaNd b = False"

fun dgt :: "dbl \<Rightarrow> real \<Rightarrow> bool" where
  "dgt (Fin a) b = (a > b)"
| "dgt PInf b = True"
| "dgt NInf b = False"
| "dgt NaNd b = False"

subsection \<open>Objects as dictionaries\<close>

text \<open>
  The members that every plain object inherits from \<^verbatim>\<open>Object.prototype\<close>. Each of them is
  a function or an object: it counts as true, it has no \<^verbatim>\<open>latitude\<close>, \<^verbatim>\<open>longitude\<close>,
  \<^verbatim>\<open>push\<close> or \<^verbatim>\<open>forEach\<close>, and it is not listed among the own keys.
\<close>

definition objectPrototype :: "string list" where
  "objectPrototype =
     [''constructor'', ''__defineGetter__'', ''__defineSetter__'', ''hasOwnProperty'',
      ''__lookupGetter__'', ''__lookupSetter__'', ''isPrototypeOf'', ''propertyIsEnumerable'',
      ''toString'', ''valueOf'', ''__proto__'', ''toLocaleString'']"

definition inherited :: "string \<Rightarrow> bool" where
  "inherited key = (key \<in> set objectPrototype)"

text \<open>\<^verbatim>\<open>obj[key]\<close>: an own property, an inherited member, or \<^verbatim>\<open>undefined\<close>.\<close>

datatype 'a property = Own 'a | Inherited | Absent

definition getProp :: "(string \<times> 'a) list \<Rightarrow> string \<Rightarrow> 'a property" where
  "getProp obj key =
     (case map_of obj key of
        Some v \<Rightarrow> Own v
      | None \<Rightarrow> if inherited key then Inherited else Absent)"

text \<open>
  \<^verbatim>\<open>member[key]\<close> for an inherited member: the members it inherits in turn; the own
  properties of the built-in functions (\<^verbatim>\<open>length\<close>, \<^verbatim>\<open>name\<close>, ...) are not modelled.
\<close>

definition memberProp :: "string \<Rightarrow> 'a property" where
  "memberProp key = (if inherited key then Inherited else Absent)"

text \<open>
  An array index is a canonical numeric string (digits, no leading zero) with a value
  up to \<open>2^32 - 2\<close>.
\<close>

definition digitValue :: "char \<Rightarrow> nat" where
  "digitValue c = length (takeWhile (\<lambda>d. d \<noteq> c) ''0123456789'')"

definition parseNat :: "string \<Rightarrow> nat" where
  "parseNat s = foldl (\<lambda>acc c. 10 * acc + digitValue c) 0 s"

definition isArrayIndex :: "string \<Rightarrow> bool" where
  "isArrayIndex s =
     (s \<noteq> [] \<and> list_all (\<lambda>c. c \<in> set ''0123456789'') s \<and>
      (hd s \<noteq> CHR ''0'' \<or> s = ''0'') \<and> parseNat s \<le> 4294967294)"

text \<open>
  \<^verbatim>\<open>Object.entries(obj)\<close>: the own properties, the array indices first in ascending
  order, then the other keys in insertion order. An entry of the list under the name of an
  inherited member is not an own property (a write to \<^verbatim>\<open>obj[key][...]\<close> lands on the
  inherited member), so it is not listed.
\<close>

definition objectEntries :: "(string \<times> 'a) list \<Rightarrow> (string \<times> 'a) list" where
  "objectEntries obj =
     (let own = filter (\<lambda>kv. \<not> inherited (fst kv)) obj
      in sort_key (\<lambda>kv. parseNat (fst kv)) (filter (\<lambda>kv. isArrayIndex (fst kv)) own) @
         filter (\<lambda>kv. \<not> isArrayIndex (fst kv)) own)"

definition objectKeys :: "(string \<times> 'a) list \<Rightarrow> string list" where
  "objectKeys obj = map fst (objectEntries obj)"

subsection \<open>Bounds and the projection\<close>

text \<open>
  \<^verbatim>\<open>longs of original map are -180 to 180; longs of fully triplicated map are -540 to 540;
  restrict to longs between -360 to 360\<close>
\<close>

definition westBound :: real where
  "westBound = - 360"

definition eastBound :: real where
  "eastBound = 360"

datatype point = Point (px: real) (py: real)

type_synonym projection = "jsnum \<Rightarrow> jsnum \<Rightarrow> point"

definition leafletLatLongToLayerPoint :: "jsnum \<Rightarrow> jsnum \<Rightarrow> projection \<Rightarrow> point" where
  "leafletLatLongToLayerPoint lat long mp = mp lat long"

text \<open>If the transmission pair is legal, the projected origin and destination; otherwise null.\<close>

definition maybeGetTransmissionPair ::
  "jsnum \<Rightarrow> jsnum \<Rightarrow> jsnum \<Rightarrow> jsnum \<Rightarrow> projection \<Rightarrow> (point \<times> point) option" where
  "maybeGetTransmissionPair latOrig longOrig latDest longDest mp =
     (if (jgt longOrig westBound \<or> jgt longDest westBound) \<and>
         (jlt longOrig eastBound \<or> jlt longDest eastBound) \<and>
         jlt (jabs (jsub longOrig longDest)) 180
      then Some (leafletLatLongToLayerPoint latOrig longOrig mp,
                 leafletLatLongToLayerPoint latDest longDest mp)
      else None)"

subsection \<open>Nodes\<close>

text \<open>
  A tree node, with the fields this module reads: \<^verbatim>\<open>arrayIdx\<close>, the attributes,
  \<^verbatim>\<open>num_date.value\<close> and \<^verbatim>\<open>children\<close> (absent on a tip, so \<open>None\<close>; an empty array
  is \<open>Some []\<close>, which JavaScript counts as true).
\<close>

datatype node =
  Node (arrayIdx: nat) (node_attrs: "(string \<times> jsval) list") (num_date: real)
       (children: "node list option")

text \<open>
  Modelled from the spec: \<^verbatim>\<open>getTraitFromNode\<close> (util/treeMiscHelpers) is not among the
  sources. A node has a geographic trait value for a resolution, or \<^verbatim>\<open>undefined\<close>.
\<close>

definition getTraitFromNode :: "node \<Rightarrow> string \<Rightarrow> jsval" where
  "getTraitFromNode n trait =
     (case map_of (node_attrs n) trait of None \<Rightarrow> Undefined | Some v \<Rightarrow> v)"

text \<open>
  Modelled from the spec: \<^verbatim>\<open>NODE_NOT_VISIBLE\<close> (util/globals) is not among the sources;
  it is the visibility state "not-visible".
\<close>

definition NODE_NOT_VISIBLE :: nat where
  "NODE_NOT_VISIBLE = 0"

text \<open>
  \<^verbatim>\<open>visibility[i] !== NODE_NOT_VISIBLE\<close>: an index beyond the array reads
  \<^verbatim>\<open>undefined\<close>, which differs from the constant.
\<close>

definition isVisible :: "nat list \<Rightarrow> nat \<Rightarrow> bool" where
  "isVisible visibility i =
     (if i < length visibility then visibility ! i \<noteq> NODE_NOT_VISIBLE else True)"

text \<open>\<^verbatim>\<open>nodeColors[i]\<close>: a colour string, or \<^verbatim>\<open>undefined\<close> beyond the array.\<close>

definition colorAt :: "string list \<Rightarrow> nat \<Rightarrow> string option" where
  "colorAt nodeColors i = (if i < length nodeColors then Some (nodeColors ! i) else None)"

definition colorKey :: "string option \<Rightarrow> string" where
  "colorKey c = (case c of None \<Rightarrow> ''undefined'' | Some s \<Rightarrow> s)"

subsection \<open>Colour aggregation\<close>

record colorCount =
  nVisible :: nat
  nTotal :: nat

type_synonym colorCounts = "(string \<times> colorCount) list"
type_synonym demeToColorMap = "(string \<times> colorCounts) list"

text \<open>The body of the \<^verbatim>\<open>forEach\<close> of \<^verbatim>\<open>getColorsForAllDemes\<close>, for node \<open>n\<close> at index \<open>i\<close>.\<close>

definition colorStep ::
  "nat list \<Rightarrow> string \<Rightarrow> string list \<Rightarrow> node \<times> nat \<Rightarrow> demeToColorMap \<Rightarrow> demeToColorMap" where
  "colorStep visibility geoResolution nodeColors ni demeToColorMap =
     (let n = fst ni; i = snd ni in
      if children n \<noteq> None then demeToColorMap
      else
        let location = getTraitFromNode n geoResolution in
        if \<not> truthy location then demeToColorMap
        else
          let loc = toString location;
              counts = (case map_of demeToColorMap loc of None \<Rightarrow> [] | Some cc \<Rightarrow> cc);
              col = colorKey (colorAt nodeColors i);
              e0 = (case map_of counts col of
                      None \<Rightarrow> \<lparr>nVisible = 0, nTotal = 0\<rparr> | Some e \<Rightarrow> e);
              e1 = e0\<lparr>nTotal := nTotal e0 + 1\<rparr>;
              e2 = (if isVisible visibility i then e1\<lparr>nVisible := nVisible e1 + 1\<rparr> else e1)
          in AList.update loc (AList.update col e2 counts) demeToColorMap)"

definition getColorsForAllDemes ::
  "node list \<Rightarrow> nat list \<Rightarrow> string \<Rightarrow> string list \<Rightarrow> demeToColorMap" where
  "getColorsForAllDemes nodes visibility geoResolution nodeColors =
     fold (colorStep visibility geoResolution nodeColors) (zip nodes [0..<length nodes]) []"




subsection \<open>Building the demes\<close>

text \<open>
  A slice of a pie chart. Of the layout's own fields only the two angles are kept; the
  build adds the colour, the inner radius and the back reference.
\<close>

record arc =
  startAngle :: dbl
  endAngle :: dbl
  color_a :: "string option"
  innerRadius :: real
  demeDataIdx :: nat

record deme =
  name_d :: string
  count_d :: nat
  latitude :: real
  longitude :: real
  coords :: point
  arcs :: "arc list option"
  color_d :: "string option"

type_synonym geoTable = "(string \<times> real \<times> real) list"

record metadata =
  geographicInfo :: "(string \<times> geoTable) list"

type_synonym pieLayout = "nat list \<Rightarrow> (dbl \<times> dbl) list"
type_synonym blendFn = "colorCounts \<Rightarrow> string"
type_synonym indexMap = "(string \<times> nat list) list"

text \<open>A loop whose body may throw: the first error ends it.\<close>

fun foldE :: "('a \<Rightarrow> 's \<Rightarrow> error + 's) \<Rightarrow> 'a list \<Rightarrow> 's \<Rightarrow> error + 's" where
  "foldE f [] s = Inr s"
| "foldE f (x # xs) s = (case f x s of Inl e \<Rightarrow> Inl e | Inr s' \<Rightarrow> foldE f xs s')"

definition nth_opt :: "'a list \<Rightarrow> nat \<Rightarrow> 'a option" where
  "nth_opt xs i = (if i < length xs then Some (xs ! i) else None)"

text \<open>\<^verbatim>\<open>colorCounts[cv].nVisible\<close> for a key \<open>cv\<close> of \<open>colorCounts\<close>.\<close>

definition nVisibleOf :: "colorCounts \<Rightarrow> string \<Rightarrow> nat" where
  "nVisibleOf colorCounts cv = (case map_of colorCounts cv of None \<Rightarrow> 0 | Some e \<Rightarrow> nVisible e)"

definition sumVisible :: "colorCounts \<Rightarrow> nat" where
  "sumVisible colorCounts =
     fold (\<lambda>cv acc. acc + nVisibleOf colorCounts cv) (objectKeys colorCounts) 0"

text \<open>
  \<^verbatim>\<open>if (!idx[key]) idx[key] = [index]; else idx[key].push(index)\<close>, for a key that is
  not the name of an inherited member.
\<close>

definition pushIndex :: "indexMap \<Rightarrow> string \<Rightarrow> nat \<Rightarrow> indexMap" where
  "pushIndex idx key index =
     (case map_of idx key of
        None \<Rightarrow> AList.update key [index] idx
      | Some is \<Rightarrow> AList.update key (is @ [index]) idx)"

definition offsetsFor :: "bool \<Rightarrow> real list" where
  "offsetsFor triplicate = (if triplicate then [- 360, 0, 360] else [0])"

text \<open>
  The body of the loop over the locations, for one offset. The state is
  (\<^verbatim>\<open>demeData\<close>, \<^verbatim>\<open>demeIndices\<close>, \<^verbatim>\<open>index\<close>).
  \<^item> Reading \<^verbatim>\<open>geo[geoResolution][location]\<close> throws when \<^verbatim>\<open>geo[geoResolution]\<close> is
    \<^verbatim>\<open>undefined\<close>.
  \<^item> An inherited member under the location's name counts as true; its coordinates are
    \<^verbatim>\<open>undefined\<close>, so that \<open>long\<close> is \<^verbatim>\<open>NaN\<close> and the test on the bounds fails.
  \<^item> The longitude is the double sum of the table's value and the offset; the test holds
    for finite values only.
  \<^item> The projection is a function without effects; its result is used in the deme alone
    and is computed there.
  \<^item> \<^verbatim>\<open>demeIndices[location].push\<close> is not a function when \<^verbatim>\<open>demeIndices[location]\<close> is an
    inherited member.
\<close>

definition demeEntry ::
  "string \<Rightarrow> metadata \<Rightarrow> projection \<Rightarrow> bool \<Rightarrow> pieLayout \<Rightarrow> blendFn \<Rightarrow> real \<Rightarrow>
   string \<times> colorCounts \<Rightarrow> deme list \<times> indexMap \<times> nat \<Rightarrow> error + (deme list \<times> indexMap \<times> nat)" where
  "demeEntry geoResolution meta mp pieChart pie blend OFFSET entry st =
     (case getProp (geographicInfo meta) geoResolution of
        Absent \<Rightarrow> Inl TypeError
      | tableProp \<Rightarrow>
          let location = fst entry; colorCounts = snd entry;
              demeData = fst st; demeIndices = fst (snd st); index = snd (snd st);
              found = (case tableProp of Own table \<Rightarrow> getProp table location
                       | _ \<Rightarrow> memberProp location);
              long = (case found of
                        Own ll \<Rightarrow> dadd (Fin (snd ll)) (Fin OFFSET)
                      | Inherited \<Rightarrow> NaNd
                      | Absent \<Rightarrow> Fin 0);
              goodDeme = (found \<noteq> Absent);
              colors = objectKeys colorCounts;
              nVisibleTipsInDeme = sumVisible colorCounts
          in if dgt long westBound \<and> dlt long eastBound \<and> goodDeme then
               (case (found, long) of
                  (Own ll, Fin lg) \<Rightarrow>
                    let idx = length demeData;
                        xy = leafletLatLongToLayerPoint (Num (fst ll)) (Num lg) mp;
                        d0 = \<lparr>name_d = location, count_d = nVisibleTipsInDeme,
                              latitude = fst ll, longitude = lg, coords = xy, arcs = None,
                              color_d = None\<rparr>;
                        d = (if pieChart then
                               d0\<lparr>arcs := Some (map (\<lambda>(i, a).
                                     \<lparr>startAngle = fst a, endAngle = snd a,
                                      color_a = nth_opt colors i, innerRadius = 0,
                                      demeDataIdx = idx\<rparr>)
                                   (enumerate 0 (pie (map (nVisibleOf colorCounts) colors))))\<rparr>
                             else d0\<lparr>color_d := Some (blend colorCounts)\<rparr>)
                    in if inherited location \<and> map_of demeIndices location = None
                       then Inl TypeError
                       else Inr (demeData @ [d], pushIndex demeIndices location index, index + 1)
                | _ \<Rightarrow> Inr st)
             else Inr st)"

record demeResult =
  demeData_r :: "deme list"
  demeIndices_r :: indexMap

definition setupDemeData ::
  "node list \<Rightarrow> nat list \<Rightarrow> string \<Rightarrow> string list \<Rightarrow> bool \<Rightarrow> metadata \<Rightarrow> projection \<Rightarrow> bool \<Rightarrow>
   pieLayout \<Rightarrow> blendFn \<Rightarrow> error + demeResult" where
  "setupDemeData nodes visibility geoResolution nodeColors triplicate meta mp pieChart pie blend =
     (let demeToColorMap = getColorsForAllDemes nodes visibility geoResolution nodeColors in
      case foldE (\<lambda>OFFSET. foldE (demeEntry geoResolution meta mp pieChart pie blend OFFSET)
                   (objectEntries demeToColorMap))
             (offsetsFor triplicate) ([], [], 0) of
        Inl e \<Rightarrow> Inl e
      | Inr st \<Rightarrow> Inr \<lparr>demeData_r = fst st, demeIndices_r = fst (snd st)\<rparr>)"

subsection \<open>Building the transmissions\<close>

type_synonym curveFn = "point \<Rightarrow> point \<Rightarrow> nat \<Rightarrow> point list"

definition constructBcurve :: "curveFn \<Rightarrow> point \<Rightarrow> point \<Rightarrow> nat \<Rightarrow> point list" where
  "constructBcurve bezier originLatLongPair destinationLatLongPair ext =
     bezier originLatLongPair destinationLatLongPair ext"

text \<open>
  \<^verbatim>\<open>interpolateNumber(a, b)\<close> of d3-interpolate: \<^verbatim>\<open>t => a * (1 - t) + b * t\<close>, in doubles.
\<close>

definition interpolateNumber :: "real \<Rightarrow> real \<Rightarrow> dbl \<Rightarrow> dbl" where
  "interpolateNumber a b t = dadd (dmul (Fin a) (dsub (Fin 1) t)) (dmul (Fin b) t)"

text \<open>\<^verbatim>\<open>i / (Bcurve.length - 1)\<close>: for a curve of one point this is \<^verbatim>\<open>0 / 0\<close>.\<close>

definition curveFraction :: "nat \<Rightarrow> nat \<Rightarrow> dbl" where
  "curveFraction i len = ddiv (Fin (real i)) (Fin (real (len - 1)))"

record transmission =
  id_t :: string
  originNode :: node
  destinationNode :: node
  bezierCurve :: "point list"
  bezierDates :: "dbl list"
  originName :: jsval
  destinationName :: jsval
  originCoords :: point
  destinationCoords :: point
  originLatitude :: jsnum
  destinationLatitude :: jsnum
  originLongitude :: jsnum
  destinationLongitude :: jsnum
  originNumDate :: real
  destinationNumDate :: real
  color_t :: "string option"
  visible :: string
  extend_t :: nat

text \<open>
  The coordinates read from \<^verbatim>\<open>table[geoResolution][location]\<close>: those of an own entry;
  otherwise both stay \<^verbatim>\<open>undefined\<close>.
\<close>

definition lookupLatLong :: "metadata \<Rightarrow> string \<Rightarrow> jsval \<Rightarrow> (real \<times> real) option" where
  "lookupLatLong meta geoResolution location =
     (case map_of (geographicInfo meta) geoResolution of
        None \<Rightarrow> None
      | Some table \<Rightarrow> map_of table (toString location))"

text \<open>
  Reading \<^verbatim>\<open>table[geoResolution][location].latitude\<close> throws when the table or its
  property is \<^verbatim>\<open>undefined\<close>. It does not throw for a location with the name of an
  inherited member: that reads the member, whose \<^verbatim>\<open>latitude\<close> is \<^verbatim>\<open>undefined\<close>.
\<close>

definition lookupThrows :: "metadata \<Rightarrow> string \<Rightarrow> jsval \<Rightarrow> bool" where
  "lookupThrows meta geoResolution location =
     (case getProp (geographicInfo meta) geoResolution of
        Absent \<Rightarrow> True
      | Own table \<Rightarrow> getProp table (toString location) = Absent
      | Inherited \<Rightarrow> (memberProp (toString location) :: unit property) = Absent)"

definition visibleFlag :: "nat list \<Rightarrow> nat \<Rightarrow> string" where
  "visibleFlag visibility i = (if isVisible visibility i then ''visible'' else ''hidden'')"

definition transmissionId :: "node \<Rightarrow> node \<Rightarrow> string" where
  "transmissionId n child = toString_nat (arrayIdx n) @ ''-'' @ toString_nat (arrayIdx child)"

text \<open>The set \<^verbatim>\<open>demesMissingLatLongs\<close> is passed in and returned.\<close>

definition maybeConstructTransmissionEvent ::
  "curveFn \<Rightarrow> node \<Rightarrow> node \<Rightarrow> metadata \<Rightarrow> string \<Rightarrow> string list \<Rightarrow> nat list \<Rightarrow> projection \<Rightarrow>
   real \<Rightarrow> real \<Rightarrow> jsval set \<Rightarrow> nat \<Rightarrow> transmission option \<times> jsval set" where
  "maybeConstructTransmissionEvent bezier n child meta geoResolution nodeColors visibility mp
       offsetOrig offsetDest demesMissingLatLongs ext =
     (let nodeLocation = getTraitFromNode n geoResolution;
          childLocation = getTraitFromNode child geoResolution;
          orig = lookupLatLong meta geoResolution nodeLocation;
          latOrig = (case orig of None \<Rightarrow> NaN | Some ll \<Rightarrow> Num (fst ll));
          longOrig = (case orig of None \<Rightarrow> NaN | Some ll \<Rightarrow> Num (snd ll));
          missing1 = (if lookupThrows meta geoResolution nodeLocation
                      then insert nodeLocation demesMissingLatLongs
                      else demesMissingLatLongs);
          dest = lookupLatLong meta geoResolution childLocation;
          latDest = (case dest of None \<Rightarrow> NaN | Some ll \<Rightarrow> Num (fst ll));
          longDest = (case dest of None \<Rightarrow> NaN | Some ll \<Rightarrow> Num (snd ll));
          missing2 = (if lookupThrows meta geoResolution childLocation
                      then insert childLocation missing1 else missing1)
      in case maybeGetTransmissionPair latOrig (jadd longOrig offsetOrig)
                latDest (jadd longDest offsetDest) mp of
           None \<Rightarrow> (None, missing2)
         | Some validLatLongPair \<Rightarrow>
             let Bcurve = constructBcurve bezier (fst validLatLongPair) (snd validLatLongPair) ext;
                 Bdates = map (\<lambda>i. interpolateNumber (num_date n) (num_date child)
                                      (curveFraction i (length Bcurve)))
                              [0..<length Bcurve]
             in (Some \<lparr>id_t = transmissionId n child,
                       originNode = n,
                       destinationNode = child,
                       bezierCurve = Bcurve,
                       bezierDates = Bdates,
                       originName = getTraitFromNode n geoResolution,
                       destinationName = getTraitFromNode child geoResolution,
                       originCoords = fst validLatLongPair,
                       destinationCoords = snd validLatLongPair,
                       originLatitude = latOrig,
                       destinationLatitude = latDest,
                       originLongitude = jadd longOrig offsetOrig,
                       destinationLongitude = jadd longDest offsetDest,
                       originNumDate = num_date n,
                       destinationNumDate = num_date child,
                       color_t = colorAt nodeColors (arrayIdx n),
                       visible = visibleFlag visibility (arrayIdx child),
                       extend_t = ext\<rparr>,
                 missing2))"

text \<open>\<^verbatim>\<open>_minBy\<close> of lodash: the first element with the least key, or nothing for no elements.\<close>

fun minBy :: "'a list \<Rightarrow> ('a \<Rightarrow> real) \<Rightarrow> 'a option" where
  "minBy [] f = None"
| "minBy (x # xs) f = Some (fold (\<lambda>y best. if f y < f best then y else best) xs x)"

definition maybeGetClosestTransmissionEvent ::
  "curveFn \<Rightarrow> node \<Rightarrow> node \<Rightarrow> metadata \<Rightarrow> string \<Rightarrow> string list \<Rightarrow> nat list \<Rightarrow> projection \<Rightarrow>
   real \<Rightarrow> jsval set \<Rightarrow> nat \<Rightarrow> transmission option \<times> jsval set" where
  "maybeGetClosestTransmissionEvent bezier n child meta geoResolution nodeColors visibility mp
       offsetOrig demesMissingLatLongs ext =
     (let r = fold (\<lambda>offsetDest acc.
                 let t = maybeConstructTransmissionEvent bezier n child meta geoResolution
                           nodeColors visibility mp offsetOrig offsetDest (snd acc) ext
                 in (case fst t of None \<Rightarrow> fst acc | Some e \<Rightarrow> fst acc @ [e], snd t))
               [- 360, 0, 360] ([], demesMissingLatLongs)
      in (minBy (fst r) (\<lambda>event. \<bar>px (destinationCoords event) - px (originCoords event)\<bar>),
          snd r))"

text \<open>
  The key under which \<^verbatim>\<open>demeToDemeCounts\<close> counts the pair \<^verbatim>\<open>[nodeDeme, childDeme]\<close>:
  the array turned into a string, its two elements joined by a comma (so it is never the
  name of an inherited member).
\<close>

definition pairKey :: "jsval \<Rightarrow> jsval \<Rightarrow> string" where
  "pairKey nodeDeme childDeme = toString nodeDeme @ '','' @ toString childDeme"

text \<open>
  The body of \<^verbatim>\<open>n.children.forEach\<close> in \<^verbatim>\<open>setupTransmissionData\<close>. The state is
  (\<^verbatim>\<open>transmissionData\<close>, \<^verbatim>\<open>demesMissingLatLongs\<close>, \<^verbatim>\<open>demeToDemeCounts\<close>).
\<close>

definition transmissionChild ::
  "curveFn \<Rightarrow> string \<Rightarrow> string list \<Rightarrow> nat list \<Rightarrow> bool \<Rightarrow> metadata \<Rightarrow> projection \<Rightarrow>
   node \<Rightarrow> node \<Rightarrow> transmission list \<times> jsval set \<times> (string \<times> nat) list \<Rightarrow>
   transmission list \<times> jsval set \<times> (string \<times> nat) list" where
  "transmissionChild bezier geoResolution nodeColors visibility triplicate meta mp n child st =
     (let nodeDeme = getTraitFromNode n geoResolution;
          childDeme = getTraitFromNode child geoResolution
      in if truthy nodeDeme \<and> truthy childDeme \<and> nodeDeme \<noteq> childDeme then
           let demeToDemeCounts = snd (snd st);
               key = pairKey nodeDeme childDeme;
               ext = (case map_of demeToDemeCounts key of None \<Rightarrow> 1 | Some c \<Rightarrow> c + 1);
               r = fold (\<lambda>offsetOrig acc.
                     let t = maybeGetClosestTransmissionEvent bezier n child meta geoResolution
                               nodeColors visibility mp offsetOrig (snd acc) ext
                     in (case fst t of None \<Rightarrow> fst acc | Some e \<Rightarrow> fst acc @ [e], snd t))
                   (offsetsFor triplicate) (fst st, fst (snd st))
           in (fst r, snd r, AList.update key ext demeToDemeCounts)
         else st)"

definition transmissionNode ::
  "curveFn \<Rightarrow> string \<Rightarrow> string list \<Rightarrow> nat list \<Rightarrow> bool \<Rightarrow> metadata \<Rightarrow> projection \<Rightarrow>
   node \<Rightarrow> transmission list \<times> jsval set \<times> (string \<times> nat) list \<Rightarrow>
   transmission list \<times> jsval set \<times> (string \<times> nat) list" where
  "transmissionNode bezier geoResolution nodeColors visibility triplicate meta mp n st =
     (case children n of
        None \<Rightarrow> st
      | Some cs \<Rightarrow>
          fold (transmissionChild bezier geoResolution nodeColors visibility triplicate meta mp n)
            cs st)"

record transmissionResult =
  transmissionData_r :: "transmission list"
  transmissionIndices_r :: indexMap
  demesMissingLatLongs_r :: "jsval set"

text \<open>
  The index of the ids. An id is two digit strings joined by \<^verbatim>\<open>-\<close>, never the name of an
  inherited member.
\<close>

definition indexTransmissions :: "transmission list \<Rightarrow> indexMap" where
  "indexTransmissions transmissionData =
     fold (\<lambda>ti idx. pushIndex idx (id_t (fst ti)) (snd ti))
       (zip transmissionData [0..<length transmissionData]) []"

definition setupTransmissionData ::
  "curveFn \<Rightarrow> node list \<Rightarrow> nat list \<Rightarrow> string \<Rightarrow> string list \<Rightarrow> bool \<Rightarrow> metadata \<Rightarrow> projection \<Rightarrow>
   transmissionResult" where
  "setupTransmissionData bezier nodes visibility geoResolution nodeColors triplicate meta mp =
     (let st = fold (transmissionNode bezier geoResolution nodeColors visibility triplicate meta mp)
                 nodes ([], {}, [])
      in \<lparr>transmissionData_r = fst st,
          transmissionIndices_r = indexTransmissions (fst st),
          demesMissingLatLongs_r = fst (snd st)\<rparr>)"

record mapData =
  demeData :: "deme list"
  transmissionData :: "transmission list"
  demeIndices :: indexMap
  transmissionIndices :: indexMap
  demesMissingLatLongs :: "jsval set"

definition createDemeAndTransmissionData ::
  "pieLayout \<Rightarrow> blendFn \<Rightarrow> curveFn \<Rightarrow> node list \<Rightarrow> nat list \<Rightarrow> string \<Rightarrow> string list \<Rightarrow> bool \<Rightarrow>
   metadata \<Rightarrow> projection \<Rightarrow> bool \<Rightarrow> error + mapData" where
  "createDemeAndTransmissionData pie blend bezier nodes visibility geoResolution nodeColors
       triplicate meta mp pieChart =
     (case setupDemeData nodes visibility geoResolution nodeColors triplicate meta mp pieChart
             pie blend of
        Inl e \<Rightarrow> Inl e
      | Inr d \<Rightarrow>
          let t = setupTransmissionData bezier nodes visibility geoResolution nodeColors
                    triplicate meta mp
          in Inr \<lparr>demeData = demeData_r d,
                 transmissionData = transmissionData_r t,
                 demeIndices = demeIndices_r d,
                 transmissionIndices = transmissionIndices_r t,
                 demesMissingLatLongs = demesMissingLatLongs_r t\<rparr>)"

subsection \<open>Updating colours and visibility\<close>

text \<open>\<^verbatim>\<open>Math.PI\<close>, the double nearest to \<open>\<pi>\<close>.\<close>

definition Math_PI :: real where
  "Math_PI = 884279719003555 / 281474976710656"

text \<open>\<^verbatim>\<open>2*Math.PI*colorCounts[colors[i]].nVisible/totalNumVisible\<close>, from left to right.\<close>

definition sliceAngle :: "nat \<Rightarrow> nat \<Rightarrow> dbl" where
  "sliceAngle nVis totalNumVisible =
     ddiv (dmul (dmul (Fin 2) (Fin Math_PI)) (Fin (real nVis))) (Fin (real totalNumVisible))"

text \<open>
  The loop over the arcs of one deme, with the running \<^verbatim>\<open>startAngle\<close> and the index \<open>i\<close>.
  A colour mismatch is only logged. \<^verbatim>\<open>colorCounts[colors[i]]\<close> is \<^verbatim>\<open>undefined\<close> when
  there are more arcs than colours, and reading \<^verbatim>\<open>.nVisible\<close> of it throws.
\<close>

fun updateArcs ::
  "colorCounts \<Rightarrow> nat \<Rightarrow> string list \<Rightarrow> dbl \<Rightarrow> nat \<Rightarrow> arc list \<Rightarrow> error + arc list" where
  "updateArcs colorCounts totalNumVisible colors start i [] = Inr []"
| "updateArcs colorCounts totalNumVisible colors start i (a # as) =
     (case map_of colorCounts (colorKey (nth_opt colors i)) of
        None \<Rightarrow> Inl TypeError
      | Some e \<Rightarrow>
          let start' = dadd start (sliceAngle (nVisible e) totalNumVisible) in
          (case updateArcs colorCounts totalNumVisible colors start' (i + 1) as of
             Inl err \<Rightarrow> Inl err
           | Inr as' \<Rightarrow> Inr (a\<lparr>startAngle := start, endAngle := start'\<rparr> # as')))"

text \<open>The body of \<^verbatim>\<open>demeIndices[location].forEach\<close>.\<close>

definition updateDemeAt ::
  "bool \<Rightarrow> blendFn \<Rightarrow> colorCounts \<Rightarrow> nat \<Rightarrow> nat \<Rightarrow> deme list \<Rightarrow> error + deme list" where
  "updateDemeAt pieChart blend colorCounts nVisibleTipsInDeme index demeDataCopy =
     (if index < length demeDataCopy then
        let d = (demeDataCopy ! index)\<lparr>count_d := nVisibleTipsInDeme\<rparr> in
        if pieChart then
          (case arcs d of
             None \<Rightarrow> Inl TypeError
           | Some as \<Rightarrow>
               (case updateArcs colorCounts (sumVisible colorCounts) (objectKeys colorCounts)
                       (Fin 0) 0 as of
                  Inl e \<Rightarrow> Inl e
                | Inr as' \<Rightarrow> Inr (demeDataCopy[index := d\<lparr>arcs := Some as'\<rparr>])))
        else Inr (demeDataCopy[index := d\<lparr>color_d := Some (blend colorCounts)\<rparr>])
      else Inl TypeError)"

text \<open>
  The body of the loop over the locations. \<^verbatim>\<open>demeIndices[location]\<close> is \<^verbatim>\<open>undefined\<close>
  for a location without an entry (or an inherited member without \<^verbatim>\<open>forEach\<close>), and
  calling \<^verbatim>\<open>.forEach\<close> on it throws.
\<close>

definition updateDemeEntry ::
  "indexMap \<Rightarrow> bool \<Rightarrow> blendFn \<Rightarrow> string \<times> colorCounts \<Rightarrow> deme list \<Rightarrow> error + deme list" where
  "updateDemeEntry demeIdx pieChart blend entry demeDataCopy =
     (case map_of demeIdx (fst entry) of
        None \<Rightarrow> Inl TypeError
      | Some indices \<Rightarrow>
          foldE (updateDemeAt pieChart blend (snd entry) (sumVisible (snd entry))) indices
            demeDataCopy)"

definition updateDemeDataColAndVis ::
  "blendFn \<Rightarrow> deme list \<Rightarrow> indexMap \<Rightarrow> node list \<Rightarrow> nat list \<Rightarrow> string \<Rightarrow> string list \<Rightarrow> bool \<Rightarrow>
   error + deme list" where
  "updateDemeDataColAndVis blend dData demeIdx nodes visibility geoResolution nodeColors pieChart =
     foldE (updateDemeEntry demeIdx pieChart blend)
       (objectEntries (getColorsForAllDemes nodes visibility geoResolution nodeColors)) dData"

text \<open>
  The \<^verbatim>\<open>forEach\<close> inside the \<^verbatim>\<open>try\<close>: an index beyond the array throws, which ends the loop
  and is caught; the entries patched before it stay patched.
\<close>

fun patchTransmissions ::
  "nat list \<Rightarrow> string option \<Rightarrow> string \<Rightarrow> transmission list \<Rightarrow> transmission list" where
  "patchTransmissions [] col vis tData = tData"
| "patchTransmissions (index # rest) col vis tData =
     (if index < length tData then
        patchTransmissions rest col vis
          (tData[index := (tData ! index)\<lparr>color_t := col, visible := vis\<rparr>])
      else tData)"

text \<open>
  The body of \<^verbatim>\<open>node.children.forEach\<close> in \<^verbatim>\<open>updateTransmissionDataColAndVis\<close>. As in the
  source, \<^verbatim>\<open>childLocation\<close> is read from \<^verbatim>\<open>node\<close>, not from \<^verbatim>\<open>child\<close>.
\<close>

definition updateTransmissionChild ::
  "indexMap \<Rightarrow> nat list \<Rightarrow> string \<Rightarrow> string list \<Rightarrow> node \<Rightarrow> node \<Rightarrow> transmission list \<Rightarrow>
   transmission list" where
  "updateTransmissionChild transmissionIdx visibility geoResolution nodeColors n child tData =
     (let nodeLocation = getTraitFromNode n geoResolution;
          childLocation = getTraitFromNode n geoResolution
      in if truthy nodeLocation \<and> truthy childLocation \<and> nodeLocation \<noteq> childLocation then
           let ident = transmissionId n child;
               col = colorAt nodeColors (arrayIdx n);
               vis = visibleFlag visibility (arrayIdx child)
           in (case map_of transmissionIdx ident of
                 None \<Rightarrow> tData
               | Some indices \<Rightarrow> patchTransmissions indices col vis tData)
         else tData)"

definition updateTransmissionDataColAndVis ::
  "transmission list \<Rightarrow> indexMap \<Rightarrow> node list \<Rightarrow> nat list \<Rightarrow> string \<Rightarrow> string list \<Rightarrow>
   transmission list" where
  "updateTransmissionDataColAndVis tData transmissionIdx nodes visibility geoResolution nodeColors =
     fold (\<lambda>n acc. case children n of
                      None \<Rightarrow> acc
                    | Some cs \<Rightarrow>
                        fold (updateTransmissionChild transmissionIdx visibility geoResolution
                                nodeColors n) cs acc)
       nodes tData"

text \<open>The results are \<^verbatim>\<open>undefined\<close> (\<open>None\<close>) unless both collections are given.\<close>

definition updateDemeAndTransmissionDataColAndVis ::
  "blendFn \<Rightarrow> deme list option \<Rightarrow> transmission list option \<Rightarrow> indexMap \<Rightarrow> indexMap \<Rightarrow> node list \<Rightarrow>
   nat list \<Rightarrow> string \<Rightarrow> string list \<Rightarrow> bool \<Rightarrow>
   error + (deme list option \<times> transmission list option)" where
  "updateDemeAndTransmissionDataColAndVis blend dData tData demeIdx transmissionIdx nodes
       visibility geoResolution nodeColors pieChart =
     (case (dData, tData) of
        (Some dd, Some td) \<Rightarrow>
          (case updateDemeDataColAndVis blend dd demeIdx nodes visibility geoResolution
                  nodeColors pieChart of
             Inl e \<Rightarrow> Inl e
           | Inr newDemes \<Rightarrow>
               Inr (Some newDemes,
                    Some (updateTransmissionDataColAndVis td transmissionIdx nodes visibility
                            geoResolution nodeColors)))
      | _ \<Rightarrow> Inr (None, None))"

subsection \<open>Updating the projection\<close>

definition updateDemeDataLatLong :: "deme list \<Rightarrow> projection \<Rightarrow> deme list" where
  "updateDemeDataLatLong dData mp =
     map (\<lambda>d. d\<lparr>coords := leafletLatLongToLayerPoint (Num (latitude d)) (Num (longitude d)) mp\<rparr>)
       dData"

definition relocate :: "curveFn \<Rightarrow> projection \<Rightarrow> transmission \<Rightarrow> transmission" where
  "relocate bezier mp t =
     (let t1 = t\<lparr>originCoords :=
                  leafletLatLongToLayerPoint (originLatitude t) (originLongitude t) mp\<rparr>;
          t2 = t1\<lparr>destinationCoords :=
                  leafletLatLongToLayerPoint (destinationLatitude t1) (destinationLongitude t1) mp\<rparr>
      in t2\<lparr>bezierCurve :=
              constructBcurve bezier (originCoords t2) (destinationCoords t2) (extend_t t2)\<rparr>)"

definition updateTransmissionDataLatLong ::
  "curveFn \<Rightarrow> transmission list \<Rightarrow> projection \<Rightarrow> transmission list" where
  "updateTransmissionDataLatLong bezier tData mp = map (relocate bezier mp) tData"

definition updateDemeAndTransmissionDataLatLong ::
  "curveFn \<Rightarrow> deme list option \<Rightarrow> transmission list option \<Rightarrow> projection \<Rightarrow>
   deme list option \<times> transmission list option" where
  "updateDemeAndTransmissionDataLatLong bezier dData tData mp =
     (case (dData, tData) of
        (Some dd, Some td) \<Rightarrow>
          (Some (updateDemeDataLatLong dd mp), Some (updateTransmissionDataLatLong bezier td mp))
      | _ \<Rightarrow> (None, None))"

subsection \<open>Notions used in the statements\<close>

text \<open>The tree edges (parent, child) in the order the two builders visit them.\<close>

definition edgesOf :: "node list \<Rightarrow> (node \<times> node) list" where
  "edgesOf nodes =
     concat (map (\<lambda>n. case children n of None \<Rightarrow> [] | Some cs \<Rightarrow> map (Pair n) cs) nodes)"

text \<open>The test of \<^verbatim>\<open>setupTransmissionData\<close>: both traits set, and different.\<close>

definition isEdge :: "string \<Rightarrow> node \<Rightarrow> node \<Rightarrow> bool" where
  "isEdge res n child =
     (truthy (getTraitFromNode n res) \<and> truthy (getTraitFromNode child res) \<and>
      getTraitFromNode n res \<noteq> getTraitFromNode child res)"

text \<open>The end points of an edge for which the lookup in the table throws.\<close>

definition missingOf :: "metadata \<Rightarrow> string \<Rightarrow> node \<Rightarrow> node \<Rightarrow> jsval set" where
  "missingOf meta res n child =
     {v. (v = getTraitFromNode n res \<or> v = getTraitFromNode child res) \<and>
         lookupThrows meta res v}"

text \<open>Transmission \<open>t\<close> was made for the edge from \<open>n\<close> to \<open>child\<close>, both found in the table.\<close>

definition fromEdge :: "metadata \<Rightarrow> string \<Rightarrow> node \<Rightarrow> node \<Rightarrow> transmission \<Rightarrow> bool" where
  "fromEdge meta res n child t =
     (originNode t = n \<and> destinationNode t = child \<and>
      originName t = getTraitFromNode n res \<and> destinationName t = getTraitFromNode child res \<and>
      lookupLatLong meta res (getTraitFromNode n res) \<noteq> None \<and>
      lookupLatLong meta res (getTraitFromNode child res) \<noteq> None)"






text \<open>Node \<open>n\<close> with its trait for the resolution removed, so that it reads as undefined.\<close>

definition withoutTrait :: "string \<Rightarrow> node \<Rightarrow> node" where
  "withoutTrait res n =
     Node (arrayIdx n) (filter (\<lambda>kv. fst kv \<noteq> res) (node_attrs n)) (num_date n) (children n)"

subsection \<open>A small data set\<close>

text \<open>
  A parent at location A with two tip children at location B, whose raw longitudes are
  100 and -100; a projection that takes the longitude as \<open>x\<close>; a curve of three points.
\<close>

fun ex_coord :: "jsnum \<Rightarrow> real" where
  "ex_coord (Num v) = v"
| "ex_coord NaN = 0"

definition ex_proj :: projection where
  "ex_proj lat long = Point (ex_coord long) (ex_coord lat)"

definition ex_bezier :: curveFn where
  "ex_bezier p q e = [p, Point ((px p + px q) / 2) (py p + real e), q]"

text \<open>A curve of four points.\<close>

definition ex_bezier4 :: curveFn where
  "ex_bezier4 p q e =
     [p, Point ((2 * px p + px q) / 3) (py p + real e),
      Point ((px p + 2 * px q) / 3) (py q + real e), q]"

definition ex_pie :: pieLayout where
  "ex_pie vs = map (\<lambda>v. (Fin 0, Fin (real v))) vs"

definition ex_blend :: blendFn where
  "ex_blend cc =
     (case filter (\<lambda>ce. 0 < nVisible (snd ce)) cc of [] \<Rightarrow> ''#000'' | ce # _ \<Rightarrow> fst ce)"

definition ex_child :: node where
  "ex_child = Node 1 [(''country'', Str ''B'')] 2001 None"

definition ex_sibling :: node where
  "ex_sibling = Node 2 [(''country'', Str ''B'')] 2002 None"

definition ex_parent :: node where
  "ex_parent = Node 0 [(''country'', Str ''A'')] 2000 (Some [ex_child, ex_sibling])"

definition ex_nodes :: "node list" where
  "ex_nodes = [ex_parent, ex_child, ex_sibling]"

definition ex_meta :: metadata where
  "ex_meta = \<lparr>geographicInfo = [(''country'', [(''A'', (10, 100)), (''B'', (20, - 100))])]\<rparr>"

text \<open>The same table without location B.\<close>

definition ex_meta_noB :: metadata where
  "ex_meta_noB = \<lparr>geographicInfo = [(''country'', [(''A'', (10, 100))])]\<rparr>"

text \<open>
  A tip at location C, which the tables do not list, under a parent at location A that
  visits it before its second child at location B; a table with A and B 160 degrees apart.
\<close>

definition ex_stray :: node where
  "ex_stray = Node 1 [(''country'', Str ''C'')] 2001 None"

definition ex_root :: node where
  "ex_root = Node 0 [(''country'', Str ''A'')] 2000 (Some [ex_stray, ex_sibling])"

definition ex_meta_near :: metadata where
  "ex_meta_near = \<lparr>geographicInfo = [(''country'', [(''A'', (10, 100)), (''B'', (20, - 60))])]\<rparr>"

text \<open>A single tip at location B.\<close>

definition ex_lone_tip :: node where
  "ex_lone_tip = Node 0 [(''country'', Str ''B'')] 2000 None"

text \<open>A parent whose trait is the empty string, over the same children.\<close>

definition ex_blank :: node where
  "ex_blank = Node 0 [(''country'', Str [])] 2000 (Some [ex_child, ex_sibling])"

text \<open>A tip whose trait is \<^verbatim>\<open>null\<close>.\<close>

definition ex_null_tip :: node where
  "ex_null_tip = Node 3 [(''country'', Null)] 2003 None"

text \<open>A deme and a transmission with projected coordinates of an earlier viewport.\<close>

definition ex_deme :: deme where
  "ex_deme = \<lparr>name_d = ''B'', count_d = 2, latitude = 20, longitude = - 100,
              coords = Point 0 0, arcs = None, color_d = Some ''blue''\<rparr>"

definition ex_transmission :: transmission where
  "ex_transmission =
     \<lparr>id_t = ''0-1'', originNode = ex_parent, destinationNode = ex_child,
      bezierCurve = [Point 0 0, Point 1 1], bezierDates = [Fin 2000, Fin 2001],
      originName = Str ''A'', destinationName = Str ''B'',
      originCoords = Point 0 0, destinationCoords = Point 1 1,
      originLatitude = Num 10, destinationLatitude = Num 20,
      originLongitude = Num 100, destinationLongitude = Num 260,
      originNumDate = 2000, destinationNumDate = 2001,
      color_t = Some ''red'', visible = ''visible'', extend_t = 1\<rparr>"

section \<open>Properties\<close>

subsection \<open>Evaluation on the small data set\<close>

lemmas ex_defs = ex_proj_def ex_bezier_def ex_pie_def ex_blend_def ex_child_def ex_sibling_def
  ex_parent_def ex_nodes_def ex_meta_def ex_meta_noB_def ex_blank_def ex_null_tip_def ex_deme_def
  ex_transmission_def ex_lone_tip_def ex_bezier4_def ex_stray_def ex_root_def ex_meta_near_def

lemmas dbl_defs = toDouble_def nearest_def ulp_def exponent_def roundHalfEven_def pow2_def
  bitLength.simps dsub_def

lemmas object_defs = getProp_def memberProp_def inherited_def objectPrototype_def objectEntries_def
  objectKeys_def isArrayIndex_def parseNat_def digitValue_def lookupThrows_def

lemmas construct_defs = maybeConstructTransmissionEvent_def lookupLatLong_def getTraitFromNode_def
  maybeGetTransmissionPair_def westBound_def eastBound_def leafletLatLongToLayerPoint_def
  constructBcurve_def transmissionId_def visibleFlag_def isVisible_def
  NODE_NOT_VISIBLE_def colorAt_def lookupThrows_def getProp_def memberProp_def inherited_def
  objectPrototype_def

lemmas build_defs = createDemeAndTransmissionData_def setupDemeData_def setupTransmissionData_def
  getColorsForAllDemes_def colorStep_def getTraitFromNode_def colorKey_def colorAt_def isVisible_def
  NODE_NOT_VISIBLE_def demeEntry_def offsetsFor_def sumVisible_def nVisibleOf_def pushIndex_def
  westBound_def eastBound_def leafletLatLongToLayerPoint_def transmissionNode_def transmissionChild_def
  pairKey_def maybeGetClosestTransmissionEvent_def maybeConstructTransmissionEvent_def lookupLatLong_def
  maybeGetTransmissionPair_def constructBcurve_def curveFraction_def interpolateNumber_def
  transmissionId_def visibleFlag_def indexTransmissions_def nth_opt_def

lemmas update_defs = updateDemeAndTransmissionDataColAndVis_def updateDemeDataColAndVis_def
  updateDemeEntry_def updateDemeAt_def

lemma toString_nat_0: "toString_nat 0 = ''0''"
  by (simp add: toString_nat.simps digit_char_def)

lemma toString_nat_1: "toString_nat (Suc 0) = ''1''"
  by (simp add: toString_nat.simps digit_char_def)

lemma toString_nat_2: "toString_nat 2 = ''2''"
  by (simp add: toString_nat.simps digit_char_def)

subsection \<open>Validity of a candidate pair\<close>


subsection \<open>Where transmissions and missing locations come from\<close>

lemma construct_fromEdge:
  "fst (maybeConstructTransmissionEvent bezier n child meta res cols vis mp oo od missing ext) = Some t
   \<Longrightarrow> fromEdge meta res n child t"
  by (auto simp: fromEdge_def maybeConstructTransmissionEvent_def Let_def maybeGetTransmissionPair_def
           split: option.splits if_splits)

lemma construct_missing:
  "snd (maybeConstructTransmissionEvent bezier n child meta res cols vis mp oo od missing ext) =
     missing \<union> missingOf meta res n child"
  by (auto simp: missingOf_def maybeConstructTransmissionEvent_def Let_def split: option.splits)


lemma minBy_in_set: "minBy xs f = Some t \<Longrightarrow> t \<in> set xs"
proof -
  have "fold (\<lambda>y best. if f y < f best then y else best) ys b \<in> insert b (set ys)" for ys b
    by (induction ys arbitrary: b) auto
  then show "minBy xs f = Some t \<Longrightarrow> t \<in> set xs"
    by (cases xs) auto
qed

lemma collect_events:
  fixes step :: "real \<Rightarrow> jsval set \<Rightarrow> transmission option \<times> jsval set"
  assumes "\<And>off ms t. fst (step off ms) = Some t \<Longrightarrow> P t"
    and "\<And>off ms. snd (step off ms) = ms \<union> M"
    and "\<forall>t \<in> set (fst acc). P t"
  shows "(\<forall>t \<in> set (fst (fold (\<lambda>off acc. let t = step off (snd acc)
             in (case fst t of None \<Rightarrow> fst acc | Some e \<Rightarrow> fst acc @ [e], snd t)) offs acc)). P t) \<and>
         snd (fold (\<lambda>off acc. let t = step off (snd acc)
             in (case fst t of None \<Rightarrow> fst acc | Some e \<Rightarrow> fst acc @ [e], snd t)) offs acc) =
           (if offs = [] then snd acc else snd acc \<union> M)"
  using assms(3)
proof (induction offs arbitrary: acc)
  case Nil
  then show ?case by simp
next
  case (Cons a offs)
  let ?acc' = "(let t = step a (snd acc)
             in (case fst t of None \<Rightarrow> fst acc | Some e \<Rightarrow> fst acc @ [e], snd t))"
  have p: "\<forall>t \<in> set (fst ?acc'). P t"
    using Cons.prems assms(1) by (auto simp: Let_def split: option.splits)
  have s: "snd ?acc' = snd acc \<union> M"
    using assms(2) by (simp add: Let_def)
  show ?case
    using Cons.IH [OF p] s by auto
qed

lemma closest_fold:
  "(\<forall>t \<in> set (fst (fold (\<lambda>offsetDest acc.
                 let t = maybeConstructTransmissionEvent bezier n child meta res
                           cols vis mp oo offsetDest (snd acc) ext
                 in (case fst t of None \<Rightarrow> fst acc | Some e \<Rightarrow> fst acc @ [e], snd t))
               [- 360, 0, 360] ([], missing))). fromEdge meta res n child t) \<and>
   snd (fold (\<lambda>offsetDest acc.
                 let t = maybeConstructTransmissionEvent bezier n child meta res
                           cols vis mp oo offsetDest (snd acc) ext
                 in (case fst t of None \<Rightarrow> fst acc | Some e \<Rightarrow> fst acc @ [e], snd t))
               [- 360, 0, 360] ([], missing)) =
     (if [- 360, 0, 360 :: real] = [] then snd ([] :: transmission list, missing)
      else snd ([] :: transmission list, missing) \<union> missingOf meta res n child)"
proof (rule collect_events [where P = "fromEdge meta res n child"
      and step = "\<lambda>od ms. maybeConstructTransmissionEvent bezier n child meta res cols vis mp oo
                    od ms ext"])
  show "fromEdge meta res n child t"
    if "fst (maybeConstructTransmissionEvent bezier n child meta res cols vis mp oo off ms ext) =
      Some t" for off ms t
    using that by (rule construct_fromEdge)
  show "snd (maybeConstructTransmissionEvent bezier n child meta res cols vis mp oo off ms ext) =
      ms \<union> missingOf meta res n child" for off ms
    by (rule construct_missing)
  show "\<forall>t \<in> set (fst (([], missing) :: transmission list \<times> jsval set)).
      fromEdge meta res n child t"
    by simp
qed

lemma closest_fromEdge:
  assumes "fst (maybeGetClosestTransmissionEvent bezier n child meta res cols vis mp oo missing ext) = Some t"
  shows "fromEdge meta res n child t"
proof -
  from assms have "t \<in> set (fst (fold (\<lambda>offsetDest acc.
                 let t = maybeConstructTransmissionEvent bezier n child meta res
                           cols vis mp oo offsetDest (snd acc) ext
                 in (case fst t of None \<Rightarrow> fst acc | Some e \<Rightarrow> fst acc @ [e], snd t))
               [- 360, 0, 360] ([], missing)))"
    unfolding maybeGetClosestTransmissionEvent_def Let_def fst_conv by (rule minBy_in_set)
  with closest_fold show ?thesis
    by blast
qed

lemma closest_missing:
  "snd (maybeGetClosestTransmissionEvent bezier n child meta res cols vis mp oo missing ext) =
     missing \<union> missingOf meta res n child"
  using closest_fold [of bezier n child meta res cols vis mp oo ext missing]
  unfolding maybeGetClosestTransmissionEvent_def Let_def by simp

lemma offsetsFor_nonempty: "offsetsFor triplicate \<noteq> []"
  by (simp add: offsetsFor_def)

lemma transmissionChild_inv:
  "(\<forall>t \<in> set (fst (transmissionChild bezier res cols vis trip meta mp n child st)).
      t \<in> set (fst st) \<or> (isEdge res n child \<and> fromEdge meta res n child t)) \<and>
   fst (snd (transmissionChild bezier res cols vis trip meta mp n child st)) =
     (if isEdge res n child then fst (snd st) \<union> missingOf meta res n child else fst (snd st))"
proof (cases "isEdge res n child")
  case False
  then show ?thesis
    by (auto simp: transmissionChild_def isEdge_def Let_def)
next
  case True
  define ext where "ext = (case map_of (snd (snd st)) (pairKey (getTraitFromNode n res)
      (getTraitFromNode child res)) of None \<Rightarrow> 1 | Some c \<Rightarrow> c + 1)"
  define r where "r = fold (\<lambda>offsetOrig acc.
                     let t = maybeGetClosestTransmissionEvent bezier n child meta res
                               cols vis mp offsetOrig (snd acc) ext
                     in (case fst t of None \<Rightarrow> fst acc | Some e \<Rightarrow> fst acc @ [e], snd t))
                   (offsetsFor trip) (fst st, fst (snd st))"
  have c: "transmissionChild bezier res cols vis trip meta mp n child st =
      (fst r, snd r, AList.update (pairKey (getTraitFromNode n res) (getTraitFromNode child res))
         ext (snd (snd st)))"
    using True by (simp add: transmissionChild_def isEdge_def Let_def r_def ext_def)
  have "(\<forall>t \<in> set (fst r). t \<in> set (fst st) \<or> fromEdge meta res n child t) \<and>
      snd r = (if offsetsFor trip = [] then snd (fst st, fst (snd st))
               else snd (fst st, fst (snd st)) \<union> missingOf meta res n child)"
    unfolding r_def
  proof (rule collect_events [where P = "\<lambda>t. t \<in> set (fst st) \<or> fromEdge meta res n child t"
      and step = "\<lambda>oo ms. maybeGetClosestTransmissionEvent bezier n child meta res cols vis mp
                    oo ms ext"])
    show "t \<in> set (fst st) \<or> fromEdge meta res n child t"
      if "fst (maybeGetClosestTransmissionEvent bezier n child meta res cols vis mp off ms ext) =
        Some t" for off ms t
      using closest_fromEdge [OF that] by simp
    show "snd (maybeGetClosestTransmissionEvent bezier n child meta res cols vis mp off ms ext) =
        ms \<union> missingOf meta res n child" for off ms
      by (rule closest_missing)
    show "\<forall>t \<in> set (fst (fst st, fst (snd st))). t \<in> set (fst st) \<or> fromEdge meta res n child t"
      by simp
  qed
  then show ?thesis
    using True by (simp add: c offsetsFor_nonempty)
qed

lemma fold_nodes_edges:
  "fold (transmissionNode bezier res cols vis trip meta mp) nodes st =
     fold (\<lambda>e. transmissionChild bezier res cols vis trip meta mp (fst e) (snd e))
       (edgesOf nodes) st"
proof (induction nodes arbitrary: st)
  case Nil
  then show ?case by (simp add: edgesOf_def)
next
  case (Cons n nodes)
  let ?T = "transmissionNode bezier res cols vis trip meta mp"
  let ?F = "\<lambda>e. transmissionChild bezier res cols vis trip meta mp (fst e) (snd e)"
  let ?pre = "case children n of None \<Rightarrow> [] | Some cs \<Rightarrow> map (Pair n) cs"
  have e: "edgesOf (n # nodes) = ?pre @ edgesOf nodes"
    by (simp add: edgesOf_def)
  have step: "?T n st = fold ?F ?pre st"
    by (simp add: transmissionNode_def fold_map comp_def split: option.splits)
  have "fold ?T (n # nodes) st = fold ?T nodes (?T n st)"
    by simp
  also have "\<dots> = fold ?F (edgesOf nodes) (?T n st)"
    by (rule Cons.IH)
  also have "\<dots> = fold ?F (edgesOf nodes) (fold ?F ?pre st)"
    by (simp only: step)
  also have "\<dots> = fold ?F (?pre @ edgesOf nodes) st"
    by simp
  finally show ?case
    by (simp only: e)
qed

lemma fold_edges_inv:
  "(\<forall>t \<in> set (fst (fold (\<lambda>e. transmissionChild bezier res cols vis trip meta mp (fst e) (snd e))
                       es st)).
      t \<in> set (fst st) \<or>
      (\<exists>e \<in> set es. isEdge res (fst e) (snd e) \<and> fromEdge meta res (fst e) (snd e) t)) \<and>
   fst (snd (fold (\<lambda>e. transmissionChild bezier res cols vis trip meta mp (fst e) (snd e)) es st)) =
     fst (snd st) \<union>
     (\<Union>e \<in> {e \<in> set es. isEdge res (fst e) (snd e)}. missingOf meta res (fst e) (snd e))"
proof (induction es arbitrary: st)
  case Nil
  then show ?case by simp
next
  case (Cons e es)
  let ?F = "\<lambda>e. transmissionChild bezier res cols vis trip meta mp (fst e) (snd e)"
  let ?st' = "transmissionChild bezier res cols vis trip meta mp (fst e) (snd e) st"
  have f: "fold ?F (e # es) st = fold ?F es ?st'"
    by simp
  have c1: "\<forall>t \<in> set (fst ?st').
      t \<in> set (fst st) \<or> (isEdge res (fst e) (snd e) \<and> fromEdge meta res (fst e) (snd e) t)"
    and c2: "fst (snd ?st') =
      (if isEdge res (fst e) (snd e) then fst (snd st) \<union> missingOf meta res (fst e) (snd e)
       else fst (snd st))"
    using transmissionChild_inv [of bezier res cols vis trip meta mp "fst e" "snd e" st]
    by blast+
  have ih1: "\<forall>t \<in> set (fst (fold ?F es ?st')). t \<in> set (fst ?st') \<or>
      (\<exists>e \<in> set es. isEdge res (fst e) (snd e) \<and> fromEdge meta res (fst e) (snd e) t)"
    and ih2: "fst (snd (fold ?F es ?st')) = fst (snd ?st') \<union>
     (\<Union>e \<in> {e \<in> set es. isEdge res (fst e) (snd e)}. missingOf meta res (fst e) (snd e))"
    using Cons.IH [of ?st'] by blast+
  have 1: "\<forall>t \<in> set (fst (fold ?F (e # es) st)).
      t \<in> set (fst st) \<or>
      (\<exists>e' \<in> set (e # es). isEdge res (fst e') (snd e') \<and> fromEdge meta res (fst e') (snd e') t)"
    unfolding f
  proof
    fix t
    assume "t \<in> set (fst (fold ?F es ?st'))"
    with ih1 consider "t \<in> set (fst ?st')"
      | "\<exists>e \<in> set es. isEdge res (fst e) (snd e) \<and> fromEdge meta res (fst e) (snd e) t"
      by blast
    then show "t \<in> set (fst st) \<or>
      (\<exists>e' \<in> set (e # es). isEdge res (fst e') (snd e') \<and> fromEdge meta res (fst e') (snd e') t)"
    proof cases
      case 1
      with c1 show ?thesis by auto
    next
      case 2
      then show ?thesis by auto
    qed
  qed
  have u: "(\<Union>e' \<in> {e' \<in> set (e # es). isEdge res (fst e') (snd e')}.
        missingOf meta res (fst e') (snd e')) =
      (if isEdge res (fst e) (snd e) then missingOf meta res (fst e) (snd e) else {}) \<union>
      (\<Union>e \<in> {e \<in> set es. isEdge res (fst e) (snd e)}. missingOf meta res (fst e) (snd e))"
    by auto
  have 2: "fst (snd (fold ?F (e # es) st)) =
     fst (snd st) \<union>
     (\<Union>e' \<in> {e' \<in> set (e # es). isEdge res (fst e') (snd e')}.
        missingOf meta res (fst e') (snd e'))"
    unfolding f ih2 c2 u by auto
  from 1 2 show ?case by blast
qed

lemma setupTransmissionData_inv:
  "(\<forall>t \<in> set (transmissionData_r (setupTransmissionData bezier nodes vis res cols trip meta mp)).
      \<exists>e \<in> set (edgesOf nodes). isEdge res (fst e) (snd e) \<and> fromEdge meta res (fst e) (snd e) t) \<and>
   demesMissingLatLongs_r (setupTransmissionData bezier nodes vis res cols trip meta mp) =
     (\<Union>e \<in> {e \<in> set (edgesOf nodes). isEdge res (fst e) (snd e)}.
        missingOf meta res (fst e) (snd e))"
  using fold_edges_inv [of bezier res cols vis trip meta mp "edgesOf nodes" "([], {}, [])"]
  by (simp add: setupTransmissionData_def Let_def fold_nodes_edges)

subsection \<open>Colour aggregation\<close>






subsection \<open>Dates along the curve\<close>

lemma construct_Some:
  assumes "fst (maybeConstructTransmissionEvent bezier n child meta res cols vis mp oo od
             missing ext) = Some t"
  shows "bezierDates t = map (\<lambda>i. interpolateNumber (num_date n) (num_date child)
                                      (curveFraction i (length (bezierCurve t))))
                              [0..<length (bezierCurve t)]"
    and "originNode t = n" and "destinationNode t = child"
    and "originName t = getTraitFromNode n res" and "destinationName t = getTraitFromNode child res"
    and "lookupLatLong meta res (getTraitFromNode n res) \<noteq> None"
    and "lookupLatLong meta res (getTraitFromNode child res) \<noteq> None"
  using assms
  by (auto simp: maybeConstructTransmissionEvent_def Let_def maybeGetTransmissionPair_def
           split: option.splits if_splits)

lemma toDouble_0: "toDouble 0 = Fin 0"
  by (simp add: toDouble_def nearest_def pow2_def Let_def)

lemma toDouble_1: "toDouble 1 = Fin 1"
  by (simp add: dbl_defs Let_def)

lemma curveFraction_first: "2 \<le> len \<Longrightarrow> curveFraction 0 len = Fin 0"
  by (simp add: curveFraction_def toDouble_0)

lemma curveFraction_last: "2 \<le> len \<Longrightarrow> curveFraction (len - 1) len = Fin 1"
  by (simp add: curveFraction_def toDouble_1)

lemma interpolateNumber_first: "toDouble a = Fin a \<Longrightarrow> interpolateNumber a b (Fin 0) = Fin a"
  by (simp add: interpolateNumber_def dsub_def toDouble_0 toDouble_1)

lemma interpolateNumber_last: "toDouble b = Fin b \<Longrightarrow> interpolateNumber a b (Fin 1) = Fin b"
  by (simp add: interpolateNumber_def dsub_def toDouble_0 toDouble_1)

text \<open>
  C8 says that entry \<open>i\<close> of the dates is \<open>parentDate + (i / (n - 1)) * (childDate - parentDate)\<close>.
  The interpolator computes \<^verbatim>\<open>a * (1 - t) + b * t\<close> in doubles. On a curve of four points
  between the dates 2000 and 2001, entry 1 is 2000.3333333333335: neither the exact value
  \<open>2000 + 1 / 3\<close> nor the value 2000.3333333333333 that the formula of the claim takes when
  it is evaluated in doubles.
\<close>

theorem bezierDates_interpolated_counterexample:
  "fst (maybeConstructTransmissionEvent ex_bezier4 ex_parent ex_child ex_meta ''country''
          [''red'', ''blue'', ''blue''] [2, 2, 2] ex_proj 0 360 {} 1) \<noteq> None \<and>
   length (bezierCurve (the (fst (maybeConstructTransmissionEvent ex_bezier4 ex_parent ex_child
          ex_meta ''country'' [''red'', ''blue'', ''blue''] [2, 2, 2] ex_proj 0 360 {} 1)))) = 4 \<and>
   num_date ex_parent = 2000 \<and> num_date ex_child = 2001 \<and>
   bezierDates (the (fst (maybeConstructTransmissionEvent ex_bezier4 ex_parent ex_child ex_meta
          ''country'' [''red'', ''blue'', ''blue''] [2, 2, 2] ex_proj 0 360 {} 1))) ! 1 =
     Fin (4398779518855851 / 2199023255552) \<and>
   (4398779518855851 / 2199023255552 :: real) \<noteq> 2000 + (1 / (4 - 1)) * (2001 - 2000) \<and>
   dadd (Fin 2000) (dmul (ddiv (Fin 1) (Fin (4 - 1))) (dsub (Fin 2001) (Fin 2000))) =
     Fin (8797559037711701 / 4398046511104) \<and>
   (4398779518855851 / 2199023255552 :: real) \<noteq> 8797559037711701 / 4398046511104"
  by (simp add: construct_defs ex_defs curveFraction_def interpolateNumber_def dbl_defs Let_def
        upt_rec)

text \<open>
  C8, amended. For a valid candidate whose curve has \<open>n \<ge> 2\<close> sample points and whose two
  dates are doubles, the dates array has \<open>n\<close> entries, the first is the parent's numeric
  date, the last is the child's, and entry \<open>i\<close> is the value of
  \<^verbatim>\<open>parentDate * (1 - t) + childDate * t\<close> at \<open>t = i / (n - 1)\<close>, with the division, the
  subtraction, the two products and the sum each rounded to the nearest double.
\<close>

theorem bezierDates_rounded:
  assumes "fst (maybeConstructTransmissionEvent bezier n child meta res cols vis mp oo od
             missing ext) = Some t"
    and "2 \<le> length (bezierCurve t)"
    and "toDouble (num_date n) = Fin (num_date n)"
    and "toDouble (num_date child) = Fin (num_date child)"
  shows "length (bezierDates t) = length (bezierCurve t) \<and>
         bezierDates t ! 0 = Fin (num_date n) \<and>
         bezierDates t ! (length (bezierCurve t) - 1) = Fin (num_date child) \<and>
         (\<forall>i < length (bezierCurve t).
            bezierDates t ! i =
              dadd (dmul (Fin (num_date n))
                      (dsub (Fin 1) (ddiv (Fin (real i)) (Fin (real (length (bezierCurve t) - 1))))))
                   (dmul (Fin (num_date child))
                      (ddiv (Fin (real i)) (Fin (real (length (bezierCurve t) - 1))))))"
proof -
  let ?len = "length (bezierCurve t)"
  have d: "bezierDates t = map (\<lambda>i. interpolateNumber (num_date n) (num_date child)
                                      (curveFraction i ?len)) [0..<?len]"
    using construct_Some(1) [OF assms(1)] .
  have len: "length (bezierDates t) = ?len"
    by (simp add: d)
  have at: "bezierDates t ! i =
      interpolateNumber (num_date n) (num_date child) (curveFraction i ?len)"
    if "i < ?len" for i
    using that by (simp add: d)
  have "0 < ?len" and "?len - 1 < ?len"
    using assms(2) by linarith+
  then have first: "bezierDates t ! 0 = Fin (num_date n)"
    and last: "bezierDates t ! (?len - 1) = Fin (num_date child)"
    using at curveFraction_first [OF assms(2)] curveFraction_last [OF assms(2)]
      interpolateNumber_first [OF assms(3)] interpolateNumber_last [OF assms(4)]
    by simp_all
  have every: "\<forall>i < ?len. bezierDates t ! i =
      dadd (dmul (Fin (num_date n)) (dsub (Fin 1) (ddiv (Fin (real i)) (Fin (real (?len - 1))))))
           (dmul (Fin (num_date child)) (ddiv (Fin (real i)) (Fin (real (?len - 1)))))"
    using at by (simp add: interpolateNumber_def curveFraction_def)
  from len first last every show ?thesis
    by blast
qed

theorem bezierDates_rounded_witness:
  "bezierDates (the (fst (maybeConstructTransmissionEvent ex_bezier4 ex_parent ex_child ex_meta
       ''country'' [''red'', ''blue'', ''blue''] [2, 2, 2] ex_proj 0 360 {} 1))) =
     [Fin 2000, Fin (4398779518855851 / 2199023255552),
      Fin (8799025053215403 / 4398046511104), Fin 2001]"
proof -
  define r where "r = maybeConstructTransmissionEvent ex_bezier4 ex_parent ex_child ex_meta
       ''country'' [''red'', ''blue'', ''blue''] [2, 2, 2] ex_proj 0 360 {} 1"
  have c: "length (bezierCurve (the (fst r))) = 4"
    by (simp add: r_def construct_defs ex_defs Let_def)
  have h: "fst r = Some (the (fst r))"
    by (simp add: r_def construct_defs ex_defs Let_def)
  have l: "2 \<le> length (bezierCurve (the (fst r)))"
    by (simp add: c)
  have n: "num_date ex_parent = 2000" "num_date ex_child = 2001"
    by (simp_all add: ex_defs)
  have a: "toDouble (num_date ex_parent) = Fin (num_date ex_parent)"
    and b: "toDouble (num_date ex_child) = Fin (num_date ex_child)"
    by (simp_all add: n dbl_defs Let_def)
  have e1: "dadd (dmul (Fin 2000) (dsub (Fin 1) (toDouble (1 / 3))))
                 (dmul (Fin 2001) (toDouble (1 / 3))) =
            Fin (4398779518855851 / 2199023255552)"
    by (simp add: dbl_defs Let_def)
  have e2: "dadd (dmul (Fin 2000) (dsub (Fin 1) (toDouble (2 / 3))))
                 (dmul (Fin 2001) (toDouble (2 / 3))) =
            Fin (8799025053215403 / 4398046511104)"
    by (simp add: dbl_defs Let_def)
  from bezierDates_rounded [OF h [unfolded r_def] l [unfolded r_def] a b]
  have "length (bezierDates (the (fst r))) = 4"
    and "bezierDates (the (fst r)) ! 0 = Fin 2000"
    and "bezierDates (the (fst r)) ! 1 = Fin (4398779518855851 / 2199023255552)"
    and "bezierDates (the (fst r)) ! 2 = Fin (8799025053215403 / 4398046511104)"
    and "bezierDates (the (fst r)) ! 3 = Fin 2001"
    unfolding r_def [symmetric] by (simp_all add: c n e1 e2)
  then have "bezierDates (the (fst r)) =
      [Fin 2000, Fin (4398779518855851 / 2199023255552),
       Fin (8799025053215403 / 4398046511104), Fin 2001]"
    by (simp add: list_eq_iff_nth_eq nth_Cons' less_Suc_eq numeral_3_eq_3 numeral_2_eq_2
          eval_nat_numeral)
  then show ?thesis
    unfolding r_def .
qed

subsection \<open>Traits that count as false\<close>

lemma withoutTrait_Undefined: "getTraitFromNode (withoutTrait res n) res = Undefined"
proof -
  have "map_of (filter (\<lambda>kv. fst kv \<noteq> res) xs) res = None" for xs :: "(string \<times> jsval) list"
    by (induction xs) auto
  then show ?thesis
    by (simp add: getTraitFromNode_def withoutTrait_def)
qed

lemma fold_filter_id:
  assumes "\<And>x s. \<not> P x \<Longrightarrow> f x s = s"
  shows "fold f (filter P xs) s = fold f xs s"
  using assms by (induction xs arbitrary: s) auto

text \<open>
  C10. A node whose trait for the active resolution is the empty string, or any other
  value JavaScript counts as false, is treated like one whose trait is undefined: each step
  of the aggregation and of the transmission build does for it what it does for the same
  node without the trait. As a tip it changes no colour count (the aggregation is the one
  over the nodes with a true trait alone), and an edge whose parent or child carries such
  a value changes nothing in the transmission build, so every transmission built joins two
  nodes with true traits.
\<close>

theorem falsy_trait_ignored:
  "(\<forall>n i m. \<not> truthy (getTraitFromNode n res) \<longrightarrow>
      colorStep vis res cols (n, i) m = m \<and>
      colorStep vis res cols (n, i) m = colorStep vis res cols (withoutTrait res n, i) m) \<and>
   (\<forall>n other st. \<not> truthy (getTraitFromNode n res) \<longrightarrow>
      transmissionChild bezier res cols vis trip meta mp n other st =
        transmissionChild bezier res cols vis trip meta mp (withoutTrait res n) other st \<and>
      transmissionChild bezier res cols vis trip meta mp other n st =
        transmissionChild bezier res cols vis trip meta mp other (withoutTrait res n) st) \<and>
   getColorsForAllDemes nodes vis res cols =
     fold (colorStep vis res cols)
       (filter (\<lambda>ni. truthy (getTraitFromNode (fst ni) res)) (zip nodes [0..<length nodes])) [] \<and>
   (\<forall>n child st.
      \<not> truthy (getTraitFromNode n res) \<or> \<not> truthy (getTraitFromNode child res) \<longrightarrow>
      transmissionChild bezier res cols vis trip meta mp n child st = st) \<and>
   (\<forall>t \<in> set (transmissionData_r (setupTransmissionData bezier nodes vis res cols trip meta mp)).
      truthy (getTraitFromNode (originNode t) res) \<and>
      truthy (getTraitFromNode (destinationNode t) res))"
proof -
  have a: "colorStep vis res cols ni m = m" if "\<not> truthy (getTraitFromNode (fst ni) res)" for ni m
    using that by (simp add: colorStep_def Let_def)
  have b: "getColorsForAllDemes nodes vis res cols =
     fold (colorStep vis res cols)
       (filter (\<lambda>ni. truthy (getTraitFromNode (fst ni) res)) (zip nodes [0..<length nodes])) []"
    unfolding getColorsForAllDemes_def
    by (rule fold_filter_id [symmetric]) (rule a)
  have c: "transmissionChild bezier res cols vis trip meta mp n child st = st"
    if "\<not> truthy (getTraitFromNode n res) \<or> \<not> truthy (getTraitFromNode child res)" for n child st
    using that by (auto simp: transmissionChild_def Let_def)
  have d: "truthy (getTraitFromNode (originNode t) res) \<and>
      truthy (getTraitFromNode (destinationNode t) res)"
    if "t \<in> set (transmissionData_r (setupTransmissionData bezier nodes vis res cols trip meta mp))"
    for t
  proof -
    from that setupTransmissionData_inv [of bezier nodes vis res cols trip meta mp]
    obtain e where "isEdge res (fst e) (snd e)" and "fromEdge meta res (fst e) (snd e) t"
      by blast
    then show ?thesis
      by (simp add: isEdge_def fromEdge_def)
  qed
  have a': "\<forall>n i m. \<not> truthy (getTraitFromNode n res) \<longrightarrow>
      colorStep vis res cols (n, i) m = m \<and>
      colorStep vis res cols (n, i) m = colorStep vis res cols (withoutTrait res n, i) m"
    by (simp add: colorStep_def Let_def withoutTrait_Undefined)
  have u: "\<forall>n other st. \<not> truthy (getTraitFromNode n res) \<longrightarrow>
      transmissionChild bezier res cols vis trip meta mp n other st =
        transmissionChild bezier res cols vis trip meta mp (withoutTrait res n) other st \<and>
      transmissionChild bezier res cols vis trip meta mp other n st =
        transmissionChild bezier res cols vis trip meta mp other (withoutTrait res n) st"
    by (simp add: transmissionChild_def Let_def withoutTrait_Undefined)
  from a' u b c d show ?thesis
    by blast
qed

theorem falsy_trait_ignored_witness:
  "\<not> truthy (getTraitFromNode ex_null_tip ''country'') \<and>
   colorStep [2, 2, 2] ''country'' [''red'', ''blue'', ''blue''] (ex_null_tip, 3) [] = [] \<and>
   \<not> truthy (getTraitFromNode ex_blank ''country'') \<and>
   transmissionChild ex_bezier ''country'' [''red'', ''blue'', ''blue''] [2, 2, 2] False ex_meta
     ex_proj ex_blank ex_child ([], {}, []) = ([], {}, []) \<and>
   transmissionData_r (setupTransmissionData ex_bezier [ex_blank, ex_child, ex_sibling] [2, 2, 2]
     ''country'' [''red'', ''blue'', ''blue''] False ex_meta ex_proj) = []"
proof -
  have 1: "\<not> truthy (getTraitFromNode ex_null_tip ''country'')"
    and 2: "\<not> truthy (getTraitFromNode ex_blank ''country'')"
    by (simp_all add: ex_defs getTraitFromNode_def)
  note w = falsy_trait_ignored [where res = "''country''" and vis = "[2, 2, 2]"
    and cols = "[''red'', ''blue'', ''blue'']" and nodes = "[ex_blank, ex_child, ex_sibling]"
    and bezier = ex_bezier and trip = False and meta = ex_meta and mp = ex_proj]
  have 3: "colorStep [2, 2, 2] ''country'' [''red'', ''blue'', ''blue''] (ex_null_tip, 3) [] = []"
    using w 1 by blast
  have 4: "transmissionChild ex_bezier ''country'' [''red'', ''blue'', ''blue''] [2, 2, 2] False
     ex_meta ex_proj ex_blank ex_child ([], {}, []) = ([], {}, [])"
    using w 2 by blast
  have 5: "transmissionData_r (setupTransmissionData ex_bezier [ex_blank, ex_child, ex_sibling]
     [2, 2, 2] ''country'' [''red'', ''blue'', ''blue''] False ex_meta ex_proj) = []"
    by (simp add: ex_defs build_defs Let_def)
  from 1 2 3 4 5 show ?thesis
    by blast
qed

subsection \<open>The projection update\<close>

text \<open>
  C9. The projection update, given both collections, returns collections of the same
  lengths in which every deme has its \<open>coords\<close> recomputed from its stored latitude and
  longitude, and every transmission has both end points recomputed from its stored raw
  values and its curve rebuilt from them with the stored \<open>extend\<close>. Each entry is otherwise
  the old entry: count, colour, arcs, the transmission's colour, visible flag, dates and id
  are unchanged. The function neither receives nor returns the index maps, the nodes, the
  visibility or the colours, so it cannot change the former or aggregate over the latter.
\<close>

theorem projection_update_frame:
  assumes "updateDemeAndTransmissionDataLatLong bezier (Some dd) (Some td) mp = (newDemes, newTransmissions)"
  shows "\<exists>dd' td'. newDemes = Some dd' \<and> newTransmissions = Some td' \<and>
     length dd' = length dd \<and> length td' = length td \<and>
     (\<forall>i < length dd.
        coords (dd' ! i) = mp (Num (latitude (dd ! i))) (Num (longitude (dd ! i))) \<and>
        dd' ! i = (dd ! i)\<lparr>coords := coords (dd' ! i)\<rparr> \<and>
        name_d (dd' ! i) = name_d (dd ! i) \<and> count_d (dd' ! i) = count_d (dd ! i) \<and>
        color_d (dd' ! i) = color_d (dd ! i) \<and> arcs (dd' ! i) = arcs (dd ! i) \<and>
        latitude (dd' ! i) = latitude (dd ! i) \<and> longitude (dd' ! i) = longitude (dd ! i)) \<and>
     (\<forall>i < length td.
        originCoords (td' ! i) = mp (originLatitude (td ! i)) (originLongitude (td ! i)) \<and>
        destinationCoords (td' ! i) =
          mp (destinationLatitude (td ! i)) (destinationLongitude (td ! i)) \<and>
        bezierCurve (td' ! i) =
          bezier (originCoords (td' ! i)) (destinationCoords (td' ! i)) (extend_t (td ! i)) \<and>
        td' ! i = (td ! i)\<lparr>originCoords := originCoords (td' ! i),
                            destinationCoords := destinationCoords (td' ! i),
                            bezierCurve := bezierCurve (td' ! i)\<rparr> \<and>
        color_t (td' ! i) = color_t (td ! i) \<and> visible (td' ! i) = visible (td ! i) \<and>
        bezierDates (td' ! i) = bezierDates (td ! i) \<and> id_t (td' ! i) = id_t (td ! i) \<and>
        extend_t (td' ! i) = extend_t (td ! i))"
proof -
  have nd: "newDemes = Some (updateDemeDataLatLong dd mp)"
    and nt: "newTransmissions = Some (updateTransmissionDataLatLong bezier td mp)"
    using assms by (simp_all add: updateDemeAndTransmissionDataLatLong_def)
  have d: "updateDemeDataLatLong dd mp ! i =
      (dd ! i)\<lparr>coords := mp (Num (latitude (dd ! i))) (Num (longitude (dd ! i)))\<rparr>"
    if "i < length dd" for i
    using that by (simp add: updateDemeDataLatLong_def leafletLatLongToLayerPoint_def)
  have t: "updateTransmissionDataLatLong bezier td mp ! i =
      (td ! i)\<lparr>originCoords := mp (originLatitude (td ! i)) (originLongitude (td ! i)),
                destinationCoords := mp (destinationLatitude (td ! i)) (destinationLongitude (td ! i)),
                bezierCurve := bezier (mp (originLatitude (td ! i)) (originLongitude (td ! i)))
                    (mp (destinationLatitude (td ! i)) (destinationLongitude (td ! i)))
                    (extend_t (td ! i))\<rparr>"
    if "i < length td" for i
    using that
    by (simp add: updateTransmissionDataLatLong_def relocate_def Let_def
          leafletLatLongToLayerPoint_def constructBcurve_def)
  have ld: "length (updateDemeDataLatLong dd mp) = length dd"
    by (simp add: updateDemeDataLatLong_def)
  have lt: "length (updateTransmissionDataLatLong bezier td mp) = length td"
    by (simp add: updateTransmissionDataLatLong_def)
  show ?thesis
    by (rule exI [of _ "updateDemeDataLatLong dd mp"],
        rule exI [of _ "updateTransmissionDataLatLong bezier td mp"])
       (simp add: nd nt ld lt d t)
qed

theorem projection_update_frame_witness:
  "\<exists>dd' td'.
     updateDemeAndTransmissionDataLatLong ex_bezier (Some [ex_deme]) (Some [ex_transmission]) ex_proj =
       (Some dd', Some td') \<and>
     coords (dd' ! 0) = Point (- 100) 20 \<and> count_d (dd' ! 0) = 2 \<and>
     color_d (dd' ! 0) = Some ''blue'' \<and>
     originCoords (td' ! 0) = Point 100 10 \<and> destinationCoords (td' ! 0) = Point 260 20 \<and>
     bezierCurve (td' ! 0) = [Point 100 10, Point 180 11, Point 260 20] \<and>
     color_t (td' ! 0) = Some ''red'' \<and> visible (td' ! 0) = ''visible'' \<and>
     bezierDates (td' ! 0) = [Fin 2000, Fin 2001] \<and> id_t (td' ! 0) = ''0-1''"
proof -
  obtain nd nt where e: "updateDemeAndTransmissionDataLatLong ex_bezier (Some [ex_deme])
      (Some [ex_transmission]) ex_proj = (nd, nt)"
    by (cases "updateDemeAndTransmissionDataLatLong ex_bezier (Some [ex_deme])
      (Some [ex_transmission]) ex_proj")
  from projection_update_frame [OF e] obtain dd' td' where
    r: "nd = Some dd'" "nt = Some td'"
    and d: "\<forall>i < length [ex_deme].
        coords (dd' ! i) = ex_proj (Num (latitude ([ex_deme] ! i))) (Num (longitude ([ex_deme] ! i))) \<and>
        count_d (dd' ! i) = count_d ([ex_deme] ! i) \<and>
        color_d (dd' ! i) = color_d ([ex_deme] ! i)"
    and t: "\<forall>i < length [ex_transmission].
        originCoords (td' ! i) =
          ex_proj (originLatitude ([ex_transmission] ! i)) (originLongitude ([ex_transmission] ! i)) \<and>
        destinationCoords (td' ! i) =
          ex_proj (destinationLatitude ([ex_transmission] ! i))
            (destinationLongitude ([ex_transmission] ! i)) \<and>
        bezierCurve (td' ! i) =
          ex_bezier (originCoords (td' ! i)) (destinationCoords (td' ! i))
            (extend_t ([ex_transmission] ! i)) \<and>
        color_t (td' ! i) = color_t ([ex_transmission] ! i) \<and>
        visible (td' ! i) = visible ([ex_transmission] ! i) \<and>
        bezierDates (td' ! i) = bezierDates ([ex_transmission] ! i) \<and>
        id_t (td' ! i) = id_t ([ex_transmission] ! i)"
    by blast
  from d have d0: "coords (dd' ! 0) = Point (- 100) 20 \<and> count_d (dd' ! 0) = 2 \<and>
     color_d (dd' ! 0) = Some ''blue''"
    by (simp add: ex_deme_def ex_proj_def)
  from t have t0: "originCoords (td' ! 0) = Point 100 10 \<and> destinationCoords (td' ! 0) = Point 260 20 \<and>
     bezierCurve (td' ! 0) = [Point 100 10, Point 180 11, Point 260 20] \<and>
     color_t (td' ! 0) = Some ''red'' \<and> visible (td' ! 0) = ''visible'' \<and>
     bezierDates (td' ! 0) = [Fin 2000, Fin 2001] \<and> id_t (td' ! 0) = ''0-1''"
    by (simp add: ex_transmission_def ex_proj_def ex_bezier_def)
  from e r d0 t0 show ?thesis
    by blast
qed

subsection \<open>The colour and visibility update\<close>

lemma updateTransmissionChild_noop:
  "updateTransmissionChild ti vis res cols n child td = td"
  by (simp add: updateTransmissionChild_def Let_def)

lemma updateTransmissionDataColAndVis_noop:
  "updateTransmissionDataColAndVis td ti nodes vis res cols = td"
proof -
  have c: "fold (updateTransmissionChild ti vis res cols n) cs acc = acc" for n cs acc
    by (induction cs arbitrary: acc) (simp_all add: updateTransmissionChild_noop)
  have "fold (\<lambda>n acc. case children n of None \<Rightarrow> acc
          | Some cs \<Rightarrow> fold (updateTransmissionChild ti vis res cols n) cs acc) nodes acc = acc"
    for acc
    by (induction nodes arbitrary: acc) (simp_all add: c split: option.splits)
  then show ?thesis
    by (simp add: updateTransmissionDataColAndVis_def)
qed

lemma ex_build:
  "createDemeAndTransmissionData ex_pie ex_blend ex_bezier ex_nodes [2, 2, 2] ''country''
      [''red'', ''blue'', ''blue''] False ex_meta ex_proj False =
   Inr \<lparr>demeData = [\<lparr>name_d = ''B'', count_d = 2, latitude = 20, longitude = - 100,
                     coords = Point (- 100) 20, arcs = None, color_d = Some ''blue''\<rparr>],
        transmissionData =
          [\<lparr>id_t = ''0-1'', originNode = ex_parent, destinationNode = ex_child,
            bezierCurve = [Point 100 10, Point 180 11, Point 260 20],
            bezierDates = [Fin 2000, Fin (4001 / 2), Fin 2001],
            originName = Str ''A'', destinationName = Str ''B'',
            originCoords = Point 100 10, destinationCoords = Point 260 20,
            originLatitude = Num 10, destinationLatitude = Num 20,
            originLongitude = Num 100, destinationLongitude = Num 260,
            originNumDate = 2000, destinationNumDate = 2001,
            color_t = Some ''red'', visible = ''visible'', extend_t = 1\<rparr>,
           \<lparr>id_t = ''0-2'', originNode = ex_parent, destinationNode = ex_sibling,
            bezierCurve = [Point 100 10, Point 180 12, Point 260 20],
            bezierDates = [Fin 2000, Fin 2001, Fin 2002],
            originName = Str ''A'', destinationName = Str ''B'',
            originCoords = Point 100 10, destinationCoords = Point 260 20,
            originLatitude = Num 10, destinationLatitude = Num 20,
            originLongitude = Num 100, destinationLongitude = Num 260,
            originNumDate = 2000, destinationNumDate = 2002,
            color_t = Some ''red'', visible = ''visible'', extend_t = 2\<rparr>],
        demeIndices = [(''B'', [0])],
        transmissionIndices = [(''0-1'', [0]), (''0-2'', [1])],
        demesMissingLatLongs = {}\<rparr>"
  by (simp add: ex_defs build_defs object_defs dbl_defs Let_def toString_nat_0 toString_nat_1
        toString_nat_2 upt_rec)

lemma ex_rebuild:
  "case createDemeAndTransmissionData ex_pie ex_blend ex_bezier ex_nodes [2, 0, 2] ''country''
      [''green'', ''blue'', ''blue''] False ex_meta ex_proj False of
     Inl e \<Rightarrow> False
   | Inr r \<Rightarrow>
       map (\<lambda>d. (name_d d, count_d d, color_d d, arcs d)) (demeData r) =
         [(''B'', 1, Some ''blue'', None)] \<and>
       map (\<lambda>t. (id_t t, color_t t, visible t)) (transmissionData r) =
         [(''0-1'', Some ''green'', ''hidden''), (''0-2'', Some ''green'', ''visible'')]"
  by (simp add: ex_defs build_defs object_defs dbl_defs Let_def toString_nat_0 toString_nat_1
        toString_nat_2 upt_rec)

lemma ex_update_demes:
  "updateDemeDataColAndVis ex_blend
      [\<lparr>name_d = ''B'', count_d = 2, latitude = 20, longitude = - 100,
         coords = Point (- 100) 20, arcs = None, color_d = Some ''blue''\<rparr>]
      [(''B'', [0])] ex_nodes [2, 0, 2] ''country'' [''green'', ''blue'', ''blue''] False =
   Inr [\<lparr>name_d = ''B'', count_d = 1, latitude = 20, longitude = - 100,
         coords = Point (- 100) 20, arcs = None, color_d = Some ''blue''\<rparr>]"
  by (simp add: ex_defs update_defs getColorsForAllDemes_def colorStep_def getTraitFromNode_def
        colorKey_def colorAt_def isVisible_def NODE_NOT_VISIBLE_def sumVisible_def nVisibleOf_def
        object_defs Let_def upt_rec)

text \<open>
  C1 says that the update patches, for every tree edge with two set and distinct traits,
  the transmissions indexed under the edge's id with the new parent colour and the new
  child visibility. The updater reads \<open>childLocation\<close> from the parent, so its test never
  holds and it returns the collection as it was. On the small data set, built with a red
  parent and visible children and updated to a green parent and a hidden first child, the
  transmission of edge 0-1 (indexed at position 0) is still red and visible.
\<close>

theorem transmission_update_leaves_edge_unpatched:
  "case createDemeAndTransmissionData ex_pie ex_blend ex_bezier ex_nodes [2, 2, 2] ''country''
      [''red'', ''blue'', ''blue''] False ex_meta ex_proj False of
     Inl e \<Rightarrow> False
   | Inr r \<Rightarrow>
       (ex_parent, ex_child) \<in> set (edgesOf ex_nodes) \<and>
       isEdge ''country'' ex_parent ex_child \<and>
       map_of (transmissionIndices r) (transmissionId ex_parent ex_child) = Some [0] \<and>
       colorAt [''green'', ''blue'', ''blue''] (arrayIdx ex_parent) = Some ''green'' \<and>
       visibleFlag [2, 0, 2] (arrayIdx ex_child) = ''hidden'' \<and>
       color_t (updateTransmissionDataColAndVis (transmissionData r) (transmissionIndices r)
                  ex_nodes [2, 0, 2] ''country'' [''green'', ''blue'', ''blue''] ! 0) = Some ''red'' \<and>
       visible (updateTransmissionDataColAndVis (transmissionData r) (transmissionIndices r)
                  ex_nodes [2, 0, 2] ''country'' [''green'', ''blue'', ''blue''] ! 0) = ''visible''"
  by (simp add: ex_build updateTransmissionDataColAndVis_noop)
     (simp add: ex_defs edgesOf_def isEdge_def getTraitFromNode_def transmissionId_def
        toString_nat_0 toString_nat_1 colorAt_def visibleFlag_def isVisible_def
        NODE_NOT_VISIBLE_def)

text \<open>
  C2 says that an update after a build agrees with a rebuild on count, colour and arcs of
  every deme and on colour and visible flag of every transmission. On the small data set
  the demes agree, but the updated transmissions keep the old colour and flag where a
  rebuild has the new ones.
\<close>

theorem update_differs_from_rebuild:
  "case (createDemeAndTransmissionData ex_pie ex_blend ex_bezier ex_nodes [2, 2, 2] ''country''
           [''red'', ''blue'', ''blue''] False ex_meta ex_proj False,
         createDemeAndTransmissionData ex_pie ex_blend ex_bezier ex_nodes [2, 0, 2] ''country''
           [''green'', ''blue'', ''blue''] False ex_meta ex_proj False) of
     (Inr built, Inr rebuilt) \<Rightarrow>
       (case updateDemeAndTransmissionDataColAndVis ex_blend (Some (demeData built))
               (Some (transmissionData built)) (demeIndices built) (transmissionIndices built)
               ex_nodes [2, 0, 2] ''country'' [''green'', ''blue'', ''blue''] False of
          Inr (Some newDemes, Some newTransmissions) \<Rightarrow>
            map (\<lambda>d. (name_d d, count_d d, color_d d, arcs d)) newDemes =
              map (\<lambda>d. (name_d d, count_d d, color_d d, arcs d)) (demeData rebuilt) \<and>
            map (\<lambda>t. (id_t t, color_t t, visible t)) newTransmissions =
              [(''0-1'', Some ''red'', ''visible''), (''0-2'', Some ''red'', ''visible'')] \<and>
            map (\<lambda>t. (id_t t, color_t t, visible t)) (transmissionData rebuilt) =
              [(''0-1'', Some ''green'', ''hidden''), (''0-2'', Some ''green'', ''visible'')]
        | _ \<Rightarrow> False)
   | _ \<Rightarrow> False"
  using ex_rebuild
  by (simp add: ex_build updateDemeAndTransmissionDataColAndVis_def ex_update_demes
        updateTransmissionDataColAndVis_noop split: sum.splits)

lemma ex_build_noB:
  "createDemeAndTransmissionData ex_pie ex_blend ex_bezier ex_nodes [2, 2, 2] ''country''
      [''red'', ''blue'', ''blue''] False ex_meta_noB ex_proj False =
   Inr \<lparr>demeData = [], transmissionData = [], demeIndices = [], transmissionIndices = [],
        demesMissingLatLongs = {Str ''B''}\<rparr>"
  by (simp add: ex_defs build_defs object_defs dbl_defs Let_def toString_nat_0 toString_nat_1
        toString_nat_2 upt_rec)

text \<open>
  C4 says that no update throws when a location expected in an index map is absent.
  With location B missing from the lookup table the build emits no deme for B and
  \<open>demeIndices\<close> has no entry for it, while the aggregation of the update still lists B;
  the deme update then reads \<^verbatim>\<open>demeIndices[location].forEach\<close> on \<^verbatim>\<open>undefined\<close> and
  throws, outside any \<^verbatim>\<open>try\<close>.
\<close>

theorem deme_update_throws_on_stale_index:
  "case createDemeAndTransmissionData ex_pie ex_blend ex_bezier ex_nodes [2, 2, 2] ''country''
      [''red'', ''blue'', ''blue''] False ex_meta_noB ex_proj False of
     Inl e \<Rightarrow> False
   | Inr r \<Rightarrow>
       map_of (geographicInfo ex_meta_noB) ''country'' = Some [(''A'', (10, 100))] \<and>
       map_of (getColorsForAllDemes ex_nodes [2, 0, 2] ''country'' [''green'', ''blue'', ''blue''])
         ''B'' \<noteq> None \<and>
       map_of (demeIndices r) ''B'' = None \<and>
       updateDemeAndTransmissionDataColAndVis ex_blend (Some (demeData r))
         (Some (transmissionData r)) (demeIndices r) (transmissionIndices r)
         ex_nodes [2, 0, 2] ''country'' [''green'', ''blue'', ''blue''] False = Inl TypeError"
  by (simp add: ex_build_noB)
     (simp add: ex_defs update_defs getColorsForAllDemes_def colorStep_def getTraitFromNode_def
        colorKey_def colorAt_def isVisible_def NODE_NOT_VISIBLE_def sumVisible_def nVisibleOf_def
        object_defs Let_def upt_rec)

subsection \<open>Edges that span 200 degrees\<close>








subsection \<open>Locations missing from the lookup table\<close>






















end
